theory Spec2Isabelle
  imports Main
begin

section \<open>JavaScript values\<close>

text \<open>
  Claims of a token and the values of query parameters are JSON values. Numbers are
  restricted to integers (timestamps in seconds, millisecond clocks, status codes);
  fractions and NaN are outside this development.
\<close>

datatype jsval =
    JUndefined
  | JNull
  | JBool bool
  | JNum int
  | JStr string
  | JArr "jsval list"
  | JObj "(string \<times> jsval) list"

text \<open>ToBoolean, as applied by \<^verbatim>\<open>!x\<close> and \<^verbatim>\<open>if (x)\<close>.\<close>

fun truthy :: "jsval \<Rightarrow> bool" where
  "truthy JUndefined = False"
| "truthy JNull = False"
| "truthy (JBool b) = b"
| "truthy (JNum n) = (n \<noteq> 0)"
| "truthy (JStr s) = (s \<noteq> [])"
| "truthy (JArr xs) = True"
| "truthy (JObj kvs) = True"

fun typeof :: "jsval \<Rightarrow> string" where
  "typeof JUndefined = ''undefined''"
| "typeof JNull = ''object''"
| "typeof (JBool b) = ''boolean''"
| "typeof (JNum n) = ''number''"
| "typeof (JStr s) = ''string''"
| "typeof (JArr xs) = ''object''"
| "typeof (JObj kvs) = ''object''"

fun isArray :: "jsval \<Rightarrow> bool" where
  "isArray (JArr xs) = True"
| "isArray v = False"

text \<open>\<^verbatim>\<open>a.includes(x)\<close> and \<^verbatim>\<open>a.length\<close>; both are only reached behind \<^verbatim>\<open>Array.isArray(a)\<close>.\<close>

fun array_includes :: "jsval \<Rightarrow> jsval \<Rightarrow> bool" where
  "array_includes (JArr xs) x = (x \<in> set xs)"
| "array_includes v x = False"

fun js_length :: "jsval \<Rightarrow> nat" where
  "js_length (JArr xs) = length xs"
| "js_length (JStr s) = length s"
| "js_length v = 0"

text \<open>
  Arithmetic \<^verbatim>\<open>+\<close> on a claim; it is only reached behind \<^verbatim>\<open>typeof x === 'number'\<close>.
\<close>

fun num_of :: "jsval \<Rightarrow> int" where
  "num_of (JNum n) = n"
| "num_of v = 0"

text \<open>
  \<^verbatim>\<open>String(x)\<close> and template interpolation. Integers print in decimal (the notation
  JavaScript uses below \<open>10\<^sup>2\<^sup>1\<close>); \<^verbatim>\<open>join\<close> prints \<^verbatim>\<open>null\<close> and \<^verbatim>\<open>undefined\<close> as
  the empty string.
\<close>

fun string_of_nat :: "nat \<Rightarrow> string" where
  "string_of_nat n =
    (if n < 10 then [''0123456789'' ! n]
     else string_of_nat (n div 10) @ [''0123456789'' ! (n mod 10)])"

definition string_of_int :: "int \<Rightarrow> string" where
  "string_of_int i =
    (if i < 0 then CHR ''-'' # string_of_nat (nat (- i)) else string_of_nat (nat i))"

fun join :: "string \<Rightarrow> string list \<Rightarrow> string" where
  "join sep [] = []"
| "join sep [x] = x"
| "join sep (x # y # ys) = x @ sep @ join sep (y # ys)"

fun js_String :: "jsval \<Rightarrow> string" where
  "js_String JUndefined = ''undefined''"
| "js_String JNull = ''null''"
| "js_String (JBool b) = (if b then ''true'' else ''false'')"
| "js_String (JNum n) = string_of_int n"
| "js_String (JStr s) = s"
| "js_String (JArr xs) =
     join '','' (map (\<lambda>x. if x = JUndefined \<or> x = JNull then [] else js_String x) xs)"
| "js_String (JObj kvs) = ''[object Object]''"

fun array_join :: "jsval \<Rightarrow> string \<Rightarrow> string" where
  "array_join (JArr xs) sep =
     join sep (map (\<lambda>x. if x = JUndefined \<or> x = JNull then [] else js_String x) xs)"
| "array_join v sep = []"

section \<open>ID token validation\<close>

subsection \<open>Data\<close>

text \<open>The constructor's options, the validator's private fields and the constructor.\<close>

record Options =
  domain :: string
  clientId :: string
  clientSecret :: string
  idTokenSigningAlg :: "string option"
  clockTolerance :: "int option"

datatype key = Secret string | RemoteJWKSet string

record IDTokenValidator =
  this_jwks :: key
  this_alg :: string
  this_audience :: string
  this_issuer :: string
  this_clockTolerance :: int
  this_secret :: key

definition DEFAULT_CLOCK_TOLERANCE :: int where
  "DEFAULT_CLOCK_TOLERANCE = 60"

definition new_IDTokenValidator :: "Options \<Rightarrow> IDTokenValidator" where
  "new_IDTokenValidator opts =
    \<lparr> this_jwks = RemoteJWKSet (''https://'' @ domain opts),
      this_alg = (case idTokenSigningAlg opts of None \<Rightarrow> ''RS256'' | Some a \<Rightarrow> a),
      this_audience = clientId opts,
      this_issuer = ''https://'' @ domain opts @ ''/'',
      this_clockTolerance =
        (case clockTolerance opts of None \<Rightarrow> DEFAULT_CLOCK_TOLERANCE | Some t \<Rightarrow> t),
      this_secret = Secret (clientSecret opts) \<rparr>"

text \<open>
  The protected header and the payload that signature verification hands back. An absent
  claim reads as \<open>JUndefined\<close>, as a missing property does.
\<close>

record JWSHeaderParameters =
  alg :: string

record JWTPayload =
  iss :: jsval
  sub :: jsval
  aud :: jsval
  org_id :: jsval
  exp :: jsval
  nbf :: jsval
  iat :: jsval
  nonce :: jsval
  azp :: jsval
  auth_time :: jsval

record ValidateOptions =
  nonce :: "string option"
  maxAge :: "int option"
  organization :: "string option"

record JWTVerifyOptions =
  issuer :: string
  audience :: string

text \<open>
  \<^verbatim>\<open>jose.jwtVerify\<close> belongs to a library outside the repository. It is a parameter:
  given the compact token, the key and the options, it either rejects with an error of
  its own or returns the protected header and the payload.
\<close>

type_synonym 'j jwtVerify =
  "string \<Rightarrow> key \<Rightarrow> JWTVerifyOptions \<Rightarrow> 'j + (JWSHeaderParameters \<times> JWTPayload)"

text \<open>
  One constructor for each \<^verbatim>\<open>throw new IdTokenValidatorError(...)\<close> of \<^verbatim>\<open>validate\<close>, in
  the order of the source, carrying the values its message interpolates.
\<close>

datatype IdTokenValidatorError =
    AlgNotSupported string string
  | IssMissing
  | IssMismatch string jsval
  | SubMissing
  | AudMissing
  | AudNotIncluded string jsval
  | AudMismatch string jsval
  | OrgMissing
  | OrgMismatch string jsval
  | ExpMissing
  | ExpExpired int int
  | IatMissing
  | NonceMissing
  | NonceMismatch string jsval
  | AzpMissing
  | AzpMismatch string jsval
  | AuthTimeMissing
  | AuthTimeExceeded int int

text \<open>The text of each message.\<close>

fun message :: "IdTokenValidatorError \<Rightarrow> string" where
  \<open>message (AlgNotSupported found expected) =
     ''Signature algorithm of "'' @ found
       @ ''" is not supported. Expected the ID token to be signed with "'' @ expected @ ''".''\<close>
| \<open>message IssMissing = ''Issuer (iss) claim must be a string present in the ID token''\<close>
| \<open>message (IssMismatch expected found) =
     ''Issuer (iss) claim mismatch in the ID token; expected "'' @ expected
       @ ''", found "'' @ js_String found @ ''"''\<close>
| \<open>message SubMissing = ''Subject (sub) claim must be a string present in the ID token''\<close>
| \<open>message AudMissing =
     ''Audience (aud) claim must be a string or array of strings present in the ID token''\<close>
| \<open>message (AudNotIncluded expected found) =
     ''Audience (aud) claim mismatch in the ID token; expected "'' @ expected
       @ ''" but was not one of "'' @ array_join found '', '' @ ''"''\<close>
| \<open>message (AudMismatch expected found) =
     ''Audience (aud) claim mismatch in the ID token; expected "'' @ expected
       @ ''" but found "'' @ js_String found @ ''"''\<close>
| \<open>message OrgMissing =
     ''Organization Id (org_id) claim must be a string present in the ID token''\<close>
| \<open>message (OrgMismatch expected found) =
     ''Organization Id (org_id) claim value mismatch in the ID token; expected "'' @ expected
       @ ''", found "'' @ js_String found @ ''"'' @ [CHR 0x27]\<close>
| \<open>message ExpMissing =
     ''Expiration Time (exp) claim must be a number present in the ID token''\<close>
| \<open>message (ExpExpired now expTime) =
     ''Expiration Time (exp) claim error in the ID token; current time (''
       @ string_of_int now @ '') is after expiration time ('' @ string_of_int expTime @ '')''\<close>
| \<open>message IatMissing = ''Issued At (iat) claim must be a number present in the ID token''\<close>
| \<open>message NonceMissing = ''Nonce (nonce) claim must be a string present in the ID token''\<close>
| \<open>message (NonceMismatch expected found) =
     ''Nonce (nonce) claim mismatch in the ID token; expected "'' @ expected
       @ ''", found "'' @ js_String found @ ''"''\<close>
| \<open>message AzpMissing =
     ''Authorized Party (azp) claim must be a string present in the ID token when Audience (aud) claim has multiple values''\<close>
| \<open>message (AzpMismatch expected found) =
     ''Authorized Party (azp) claim mismatch in the ID token; expected "'' @ expected
       @ ''", found "'' @ js_String found @ ''"''\<close>
| \<open>message AuthTimeMissing =
     ''Authentication Time (auth_time) claim must be a number present in the ID token when Max Age (max_age) is specified''\<close>
| \<open>message (AuthTimeExceeded now authValidUntil) =
     ''Authentication Time (auth_time) claim in the ID token indicates that too much time has passed since the last end-user authentication. Currrent time (''
       @ string_of_int now @ '') is after last auth at '' @ string_of_int authValidUntil\<close>

datatype 'j validate_error =
    JoseError 'j
  | ValidatorError IdTokenValidatorError

subsection \<open>The blocks of \<^verbatim>\<open>validate\<close>\<close>

text \<open>
  Each commented block of the method is one function; it returns the error the block
  throws, or \<open>None\<close> when control falls through to the next block.
\<close>

definition check_algorithm ::
  "IDTokenValidator \<Rightarrow> JWSHeaderParameters \<Rightarrow> IdTokenValidatorError option" where
  "check_algorithm this header =
    (if alg header \<noteq> this_alg this then Some (AlgNotSupported (alg header) (this_alg this))
     else None)"

definition check_issuer ::
  "IDTokenValidator \<Rightarrow> JWTPayload \<Rightarrow> IdTokenValidatorError option" where
  "check_issuer this payload =
    (if \<not> truthy (iss payload) \<or> typeof (iss payload) \<noteq> ''string'' then Some IssMissing
     else if iss payload \<noteq> JStr (this_issuer this)
       then Some (IssMismatch (this_issuer this) (iss payload))
     else None)"

definition check_subject :: "JWTPayload \<Rightarrow> IdTokenValidatorError option" where
  "check_subject payload =
    (if \<not> truthy (sub payload) \<or> typeof (sub payload) \<noteq> ''string'' then Some SubMissing
     else None)"

definition check_audience ::
  "IDTokenValidator \<Rightarrow> JWTPayload \<Rightarrow> IdTokenValidatorError option" where
  "check_audience this payload =
    (if \<not> truthy (aud payload)
        \<or> \<not> (typeof (aud payload) = ''string'' \<or> isArray (aud payload))
       then Some AudMissing
     else if isArray (aud payload) \<and> \<not> array_includes (aud payload) (JStr (this_audience this))
       then Some (AudNotIncluded (this_audience this) (aud payload))
     else if typeof (aud payload) = ''string'' \<and> aud payload \<noteq> JStr (this_audience this)
       then Some (AudMismatch (this_audience this) (aud payload))
     else None)"

text \<open>\<^verbatim>\<open>if (organization)\<close>: an absent expectation and the empty string are both falsy.\<close>

definition check_organization ::
  "JWTPayload \<Rightarrow> string option \<Rightarrow> IdTokenValidatorError option" where
  "check_organization payload expected =
    (case expected of
       None \<Rightarrow> None
     | Some org \<Rightarrow>
        if org \<noteq> [] then
          (if \<not> truthy (org_id payload) \<or> typeof (org_id payload) \<noteq> ''string''
             then Some OrgMissing
           else if org_id payload \<noteq> JStr org then Some (OrgMismatch org (org_id payload))
           else None)
        else None)"

definition check_expiration ::
  "IDTokenValidator \<Rightarrow> JWTPayload \<Rightarrow> int \<Rightarrow> IdTokenValidatorError option" where
  "check_expiration this payload now =
    (if \<not> truthy (exp payload) \<or> typeof (exp payload) \<noteq> ''number'' then Some ExpMissing
     else
       (let expTime = num_of (exp payload) + this_clockTolerance this in
        if now > expTime then Some (ExpExpired now expTime) else None))"

definition check_issued_at :: "JWTPayload \<Rightarrow> IdTokenValidatorError option" where
  "check_issued_at payload =
    (if \<not> truthy (iat payload) \<or> typeof (iat payload) \<noteq> ''number'' then Some IatMissing
     else None)"

definition check_nonce ::
  "JWTPayload \<Rightarrow> string option \<Rightarrow> IdTokenValidatorError option" where
  "check_nonce payload expected =
    (case expected of
       None \<Rightarrow> None
     | Some n \<Rightarrow>
        if n \<noteq> [] then
          (if \<not> truthy (JWTPayload.nonce payload)
              \<or> typeof (JWTPayload.nonce payload) \<noteq> ''string''
             then Some NonceMissing
           else if JWTPayload.nonce payload \<noteq> JStr n
             then Some (NonceMismatch n (JWTPayload.nonce payload))
           else None)
        else None)"

definition check_authorized_party ::
  "IDTokenValidator \<Rightarrow> JWTPayload \<Rightarrow> IdTokenValidatorError option" where
  "check_authorized_party this payload =
    (if isArray (aud payload) \<and> js_length (aud payload) > 1 then
       (if \<not> truthy (azp payload) \<or> typeof (azp payload) \<noteq> ''string'' then Some AzpMissing
        else if azp payload \<noteq> JStr (this_audience this)
          then Some (AzpMismatch (this_audience this) (azp payload))
        else None)
     else None)"

text \<open>\<^verbatim>\<open>if (maxAge)\<close>: an absent expectation and the number 0 are both falsy.\<close>

definition check_authentication_time ::
  "IDTokenValidator \<Rightarrow> JWTPayload \<Rightarrow> int option \<Rightarrow> int \<Rightarrow> IdTokenValidatorError option" where
  "check_authentication_time this payload expected now =
    (case expected of
       None \<Rightarrow> None
     | Some age \<Rightarrow>
        if age \<noteq> 0 then
          (if \<not> truthy (auth_time payload) \<or> typeof (auth_time payload) \<noteq> ''number''
             then Some AuthTimeMissing
           else
             (let authValidUntil = num_of (auth_time payload) + age + this_clockTolerance this in
              if now > authValidUntil then Some (AuthTimeExceeded now authValidUntil)
              else None))
        else None)"

subsection \<open>\<^verbatim>\<open>validate\<close>\<close>

text \<open>
  A block that throws ends the method; otherwise the next statement runs.
\<close>

definition or_else ::
  "IdTokenValidatorError option \<Rightarrow> ('j validate_error + 'a) \<Rightarrow> 'j validate_error + 'a" where
  "or_else thrown rest = (case thrown of Some e \<Rightarrow> Inl (ValidatorError e) | None \<Rightarrow> rest)"

text \<open>
  \<open>date_now\<close> is what \<^verbatim>\<open>Date.now()\<close> returns (milliseconds); \<open>div\<close> on \<open>int\<close> rounds
  down, as \<^verbatim>\<open>Math.floor\<close> does.
\<close>

definition validate_claims ::
  "IDTokenValidator \<Rightarrow> JWSHeaderParameters \<Rightarrow> JWTPayload \<Rightarrow> ValidateOptions \<Rightarrow> int
    \<Rightarrow> 'j validate_error + JWTPayload" where
  "validate_claims this header payload opts date_now =
    or_else (check_algorithm this header)
   (or_else (check_issuer this payload)
   (or_else (check_subject payload)
   (or_else (check_audience this payload)
   (or_else (check_organization payload (organization opts))
   (let now = date_now div 1000 in
    or_else (check_expiration this payload now)
   (or_else (check_issued_at payload)
   (or_else (check_nonce payload (ValidateOptions.nonce opts))
   (or_else (check_authorized_party this payload)
   (or_else (check_authentication_time this payload (maxAge opts) now)
   (Inr payload))))))))))"

definition validate ::
  "'j jwtVerify \<Rightarrow> IDTokenValidator \<Rightarrow> string \<Rightarrow> ValidateOptions \<Rightarrow> int
    \<Rightarrow> 'j validate_error + JWTPayload" where
  "validate jwtVerify this idToken opts date_now =
    (let secret = (if this_alg this = ''HS256'' then this_secret this else this_jwks this) in
     case jwtVerify idToken secret
            \<lparr> issuer = this_issuer this, audience = this_audience this \<rparr> of
       Inl e \<Rightarrow> Inl (JoseError e)
     | Inr (header, payload) \<Rightarrow> validate_claims this header payload opts date_now)"

subsection \<open>The verification call\<close>

text \<open>
  \<^verbatim>\<open>jose.jwtVerify\<close> is not part of the repository. What it does with the options that
  \<^verbatim>\<open>validate\<close> hands it is modelled on the library (version 4): it verifies the compact
  signature and decodes the token, then validates the claims set. The first part,
  \<open>compactVerify\<close>, stays a parameter. The second part is the function below: with an
  issuer and an audience given, \<^verbatim>\<open>iss\<close> and \<^verbatim>\<open>aud\<close> must be there, \<^verbatim>\<open>iss\<close> must be the issuer and
  \<^verbatim>\<open>aud\<close> must be or contain the audience; \<^verbatim>\<open>iat\<close>, \<^verbatim>\<open>nbf\<close> and \<^verbatim>\<open>exp\<close>, where there, must be
  numbers; \<^verbatim>\<open>nbf\<close> must not lie after the current time, and \<^verbatim>\<open>exp\<close> must lie after it. The
  tolerance of these two comparisons is the option \<^verbatim>\<open>clockTolerance\<close>, which \<^verbatim>\<open>validate\<close> does
  not pass: it is 0. The clock is read once here (\<open>date_now\<close>, in milliseconds) for the
  library and for \<^verbatim>\<open>validate\<close>.
\<close>

datatype 'j jose_error =
    JWSError 'j
  | JWTClaimValidationFailed string
  | JWTExpired

definition checkAudiencePresence :: "jsval \<Rightarrow> string \<Rightarrow> bool" where
  "checkAudiencePresence audPayload audOption =
    (case audPayload of
       JStr s \<Rightarrow> s = audOption
     | JArr xs \<Rightarrow> JStr audOption \<in> set xs
     | _ \<Rightarrow> False)"

definition jwt_claims_set :: "JWTVerifyOptions \<Rightarrow> int \<Rightarrow> JWTPayload \<Rightarrow> 'j jose_error option" where
  "jwt_claims_set options date_now payload =
    (let tolerance = 0; now = date_now div 1000 in
     if iss payload = JUndefined then Some (JWTClaimValidationFailed ''iss'')
     else if aud payload = JUndefined then Some (JWTClaimValidationFailed ''aud'')
     else if issuer options \<noteq> [] \<and> iss payload \<noteq> JStr (issuer options)
       then Some (JWTClaimValidationFailed ''iss'')
     else if audience options \<noteq> []
             \<and> \<not> checkAudiencePresence (aud payload) (audience options)
       then Some (JWTClaimValidationFailed ''aud'')
     else if iat payload \<noteq> JUndefined \<and> typeof (iat payload) \<noteq> ''number''
       then Some (JWTClaimValidationFailed ''iat'')
     else if nbf payload \<noteq> JUndefined \<and> typeof (nbf payload) \<noteq> ''number''
       then Some (JWTClaimValidationFailed ''nbf'')
     else if nbf payload \<noteq> JUndefined \<and> num_of (nbf payload) > now + tolerance
       then Some (JWTClaimValidationFailed ''nbf'')
     else if exp payload \<noteq> JUndefined \<and> typeof (exp payload) \<noteq> ''number''
       then Some (JWTClaimValidationFailed ''exp'')
     else if exp payload \<noteq> JUndefined \<and> num_of (exp payload) \<le> now - tolerance
       then Some JWTExpired
     else None)"

definition jose_jwtVerify ::
  "(string \<Rightarrow> key \<Rightarrow> 'j + (JWSHeaderParameters \<times> JWTPayload)) \<Rightarrow> int
    \<Rightarrow> 'j jose_error jwtVerify" where
  "jose_jwtVerify compactVerify date_now idToken secret options =
    (case compactVerify idToken secret of
       Inl e \<Rightarrow> Inl (JWSError e)
     | Inr (header, payload) \<Rightarrow>
        (case jwt_claims_set options date_now payload of
           Some e \<Rightarrow> Inl e
         | None \<Rightarrow> Inr (header, payload)))"

subsection \<open>The pipeline of the specification\<close>

text \<open>
  The ordered claim-check pipeline: the ten steps in the order the specification lists
  them, each with the outcome of its block. A step is violated when its block throws.
\<close>

datatype stage =
    Signature
  | Issuer
  | Subject
  | Audience
  | Organization
  | Expiration
  | IssuedAt
  | Nonce
  | AuthorizedParty
  | AuthenticationTime

definition stages :: "stage list" where
  "stages = [Signature, Issuer, Subject, Audience, Organization, Expiration, IssuedAt,
             Nonce, AuthorizedParty, AuthenticationTime]"

definition stage_results ::
  "IDTokenValidator \<Rightarrow> JWSHeaderParameters \<Rightarrow> JWTPayload \<Rightarrow> ValidateOptions \<Rightarrow> int
    \<Rightarrow> IdTokenValidatorError option list" where
  "stage_results this header payload opts date_now =
    [check_algorithm this header,
     check_issuer this payload,
     check_subject payload,
     check_audience this payload,
     check_organization payload (organization opts),
     check_expiration this payload (date_now div 1000),
     check_issued_at payload,
     check_nonce payload (ValidateOptions.nonce opts),
     check_authorized_party this payload,
     check_authentication_time this payload (maxAge opts) (date_now div 1000)]"

text \<open>The claim an error message is about.\<close>

fun stage_of :: "IdTokenValidatorError \<Rightarrow> stage" where
  "stage_of (AlgNotSupported found expected) = Signature"
| "stage_of IssMissing = Issuer"
| "stage_of (IssMismatch expected found) = Issuer"
| "stage_of SubMissing = Subject"
| "stage_of AudMissing = Audience"
| "stage_of (AudNotIncluded expected found) = Audience"
| "stage_of (AudMismatch expected found) = Audience"
| "stage_of OrgMissing = Organization"
| "stage_of (OrgMismatch expected found) = Organization"
| "stage_of ExpMissing = Expiration"
| "stage_of (ExpExpired now expTime) = Expiration"
| "stage_of IatMissing = IssuedAt"
| "stage_of NonceMissing = Nonce"
| "stage_of (NonceMismatch expected found) = Nonce"
| "stage_of AzpMissing = AuthorizedParty"
| "stage_of (AzpMismatch expected found) = AuthorizedParty"
| "stage_of AuthTimeMissing = AuthenticationTime"
| "stage_of (AuthTimeExceeded now authValidUntil) = AuthenticationTime"

text \<open>How the messages of a step name its claim: the words every one of them opens with.\<close>

fun label :: "stage \<Rightarrow> string" where
  "label Signature = ''Signature algorithm''"
| "label Issuer = ''Issuer (iss) claim''"
| "label Subject = ''Subject (sub) claim''"
| "label Audience = ''Audience (aud) claim''"
| "label Organization = ''Organization Id (org_id) claim''"
| "label Expiration = ''Expiration Time (exp) claim''"
| "label IssuedAt = ''Issued At (iat) claim''"
| "label Nonce = ''Nonce (nonce) claim''"
| "label AuthorizedParty = ''Authorized Party (azp) claim''"
| "label AuthenticationTime = ''Authentication Time (auth_time) claim''"

text \<open>
  What violates each step, in the words of the specification (section 4.4). A claim is
  present and a string when it is a string other than the empty one, present and numeric
  when it is a number other than 0: presence is truthiness. An expectation that is absent
  or falsy asks for nothing.
\<close>

definition present_string :: "jsval \<Rightarrow> bool" where
  "present_string v = (case v of JStr s \<Rightarrow> s \<noteq> [] | _ \<Rightarrow> False)"

definition present_number :: "jsval \<Rightarrow> bool" where
  "present_number v = (case v of JNum n \<Rightarrow> n \<noteq> 0 | _ \<Rightarrow> False)"

fun violated ::
  "stage \<Rightarrow> IDTokenValidator \<Rightarrow> JWSHeaderParameters \<Rightarrow> JWTPayload \<Rightarrow> ValidateOptions \<Rightarrow> int
    \<Rightarrow> bool" where
  "violated Signature this header payload opts now = (alg header \<noteq> this_alg this)"
| "violated Issuer this header payload opts now =
     (\<not> (present_string (iss payload) \<and> iss payload = JStr (this_issuer this)))"
| "violated Subject this header payload opts now = (\<not> present_string (sub payload))"
| "violated Audience this header payload opts now =
     (\<not> (case aud payload of
           JStr s \<Rightarrow> s \<noteq> [] \<and> s = this_audience this
         | JArr xs \<Rightarrow> JStr (this_audience this) \<in> set xs
         | _ \<Rightarrow> False))"
| "violated Organization this header payload opts now =
     (case organization opts of
        None \<Rightarrow> False
      | Some org \<Rightarrow>
          org \<noteq> [] \<and> \<not> (present_string (org_id payload) \<and> org_id payload = JStr org))"
| "violated Expiration this header payload opts now =
     (\<not> (present_number (exp payload)
          \<and> now \<le> num_of (exp payload) + this_clockTolerance this))"
| "violated IssuedAt this header payload opts now = (\<not> present_number (iat payload))"
| "violated Nonce this header payload opts now =
     (case ValidateOptions.nonce opts of
        None \<Rightarrow> False
      | Some n \<Rightarrow>
          n \<noteq> []
          \<and> \<not> (present_string (JWTPayload.nonce payload) \<and> JWTPayload.nonce payload = JStr n))"
| "violated AuthorizedParty this header payload opts now =
     (case aud payload of
        JArr xs \<Rightarrow>
          1 < length xs
          \<and> \<not> (present_string (azp payload) \<and> azp payload = JStr (this_audience this))
      | _ \<Rightarrow> False)"
| "violated AuthenticationTime this header payload opts now =
     (case maxAge opts of
        None \<Rightarrow> False
      | Some age \<Rightarrow>
          age \<noteq> 0
          \<and> \<not> (present_number (auth_time payload)
                \<and> now \<le> num_of (auth_time payload) + age + this_clockTolerance this))"

text \<open>Running a list of outcomes in order: the first error ends the run.\<close>

fun run_checks :: "IdTokenValidatorError option list \<Rightarrow> 'a \<Rightarrow> 'j validate_error + 'a" where
  "run_checks [] p = Inr p"
| "run_checks (r # rs) p = or_else r (run_checks rs p)"

subsection \<open>Sample tokens\<close>

text \<open>
  A validator for the tenant \<^verbatim>\<open>tenant.example.com\<close> with the default algorithm and the
  default tolerance of 60 seconds, a well-formed token, a verification function that
  accepts every token and hands back a given header and payload, one that rejects every
  token with a given error, and a signature verification that succeeds on every token and
  decodes it to a given header and payload.
\<close>

definition sample_validator :: IDTokenValidator where
  "sample_validator = new_IDTokenValidator
     \<lparr> domain = ''tenant.example.com'', clientId = ''client-a'', clientSecret = ''s3cret'',
       idTokenSigningAlg = None, clockTolerance = None \<rparr>"

definition sample_header :: JWSHeaderParameters where
  "sample_header = \<lparr> alg = ''RS256'' \<rparr>"

definition sample_payload :: JWTPayload where
  "sample_payload =
     \<lparr> iss = JStr ''https://tenant.example.com/'', sub = JStr ''user-1'',
       aud = JStr ''client-a'', org_id = JUndefined, exp = JNum 1700000000,
       nbf = JUndefined, iat = JNum 1699990000, nonce = JUndefined, azp = JUndefined,
       auth_time = JUndefined \<rparr>"

definition no_expectations :: ValidateOptions where
  "no_expectations = \<lparr> nonce = None, maxAge = None, organization = None \<rparr>"

definition accepting :: "JWSHeaderParameters \<Rightarrow> JWTPayload \<Rightarrow> string jwtVerify" where
  "accepting header payload = (\<lambda>idToken secret options. Inr (header, payload))"

definition refusing :: "string \<Rightarrow> string jwtVerify" where
  "refusing code = (\<lambda>idToken secret options. Inl code)"

definition decoding ::
  "JWSHeaderParameters \<Rightarrow> JWTPayload \<Rightarrow> string \<Rightarrow> key
    \<Rightarrow> string + (JWSHeaderParameters \<times> JWTPayload)" where
  "decoding header payload = (\<lambda>idToken secret. Inr (header, payload))"

section \<open>Request execution\<close>

subsection \<open>Thrown values\<close>

text \<open>
  Modelled from the spec: the module \<^verbatim>\<open>./errors\<close>, which declares \<^verbatim>\<open>TimeoutError\<close> and
  \<^verbatim>\<open>FetchError\<close>, is not among the sources. Both are errors of the taxonomy of the
  specification (section 7), so both are instances of \<^verbatim>\<open>Error\<close>; a \<^verbatim>\<open>FetchError\<close> carries
  the error it wraps and a message. \<^verbatim>\<open>AbortError\<close> is the error with which the transport
  rejects a request whose signal was aborted. \<open>OtherError\<close> is any other instance of
  \<^verbatim>\<open>Error\<close>, \<open>NonError\<close> a thrown value that is not one.
\<close>

datatype thrown =
    AbortError
  | TimeoutError
  | FetchError thrown string
  | OtherError string
  | NonError jsval

fun instanceof_Error :: "thrown \<Rightarrow> bool" where
  "instanceof_Error (NonError v) = False"
| "instanceof_Error e = True"

fun instanceof_AbortError :: "thrown \<Rightarrow> bool" where
  "instanceof_AbortError AbortError = True"
| "instanceof_AbortError e = False"

subsection \<open>Requests and responses\<close>

text \<open>
  A \<^verbatim>\<open>RequestInit\<close> is an object: a finite map from property names to values, so that
  object spread \<^verbatim>\<open>{...a, ...b}\<close> is \<open>a ++ b\<close>. \<open>JSON_text v\<close> stands for the string
  \<^verbatim>\<open>JSON.stringify(v)\<close> returns.
\<close>

datatype init_value =
    Plain jsval
  | HeadersObject "string \<rightharpoonup> string"
  | FormData string
  | URLSearchParams string
  | Blob string
  | Agent string
  | AbortSignal
  | JSON_text init_value

type_synonym RequestInit = "string \<rightharpoonup> init_value"

type_synonym HTTPHeaders = "string \<rightharpoonup> string option"

type_synonym HTTPQuery = "(string \<times> jsval) list"

record RequestOpts =
  path :: string
  "method" :: string
  headers :: "HTTPHeaders option"
  query :: "HTTPQuery option"
  body :: "init_value option"

record Response =
  status :: int
  statusText :: string
  content :: string

record FetchParams =
  url :: string
  init :: RequestInit

text \<open>
  Every asynchronous function runs in an environment \<open>'e\<close> (the network, the server,
  whatever a callback keeps), which it may change, and either rejects or resolves.
\<close>

type_synonym ('e, 'a) async = "'e \<Rightarrow> (thrown + 'a) \<times> 'e"

type_synonym 'e FetchAPI = "string \<Rightarrow> RequestInit \<Rightarrow> ('e, Response) async"

text \<open>
  The three optional hooks of a middleware. Each receives the fetch handle, the URL and
  the request options; \<^verbatim>\<open>post\<close> also the response, \<^verbatim>\<open>onError\<close> the error and the response
  so far. A hook that resolves to nothing returns \<open>None\<close>.
\<close>

record 'e Middleware =
  pre :: "('e FetchAPI \<Rightarrow> string \<Rightarrow> RequestInit \<Rightarrow> ('e, FetchParams option) async) option"
  post :: "('e FetchAPI \<Rightarrow> string \<Rightarrow> RequestInit \<Rightarrow> Response
             \<Rightarrow> ('e, Response option) async) option"
  onError :: "('e FetchAPI \<Rightarrow> string \<Rightarrow> RequestInit \<Rightarrow> thrown \<Rightarrow> Response option
             \<Rightarrow> ('e, Response option) async) option"

text \<open>
  Modelled from the spec: \<^verbatim>\<open>RetryConfiguration\<close> is declared in \<^verbatim>\<open>./retry\<close>, which is not
  among the sources. \<^verbatim>\<open>runtime.ts\<close> reads its \<^verbatim>\<open>enabled\<close> flag only; the other two fields
  stand for the attempt limit and the retryable status codes of the RetryPolicy of the
  specification (section 4.3).
\<close>

record RetryConfiguration =
  enabled :: "bool option"
  maxRetries :: "nat option"
  retryWhen :: "int list option"

record 'e Configuration =
  baseUrl :: string
  parseError :: "Response \<Rightarrow> 'e \<Rightarrow> thrown \<times> 'e"
  fetchApi :: "'e FetchAPI option"
  middleware :: "'e Middleware list option"
  headers :: "HTTPHeaders option"
  agent :: "string option"
  timeoutDuration :: "int option"
  retry :: "RetryConfiguration option"

record 'e BaseAPI =
  configuration :: "'e Configuration"
  this_middleware :: "'e Middleware list"
  this_fetchApi :: "'e FetchAPI"
  this_parseError :: "Response \<Rightarrow> 'e \<Rightarrow> thrown \<times> 'e"
  this_timeoutDuration :: int

text \<open>
  The constructor. \<open>node_fetch\<close> is the default transport, imported from a library. The
  base URL is a string here, so only the test for the empty string can fail.
\<close>

definition new_BaseAPI :: "'e FetchAPI \<Rightarrow> 'e Configuration \<Rightarrow> thrown + 'e BaseAPI" where
  "new_BaseAPI node_fetch cfg =
    (if length (baseUrl cfg) = 0 then Inl (OtherError ''The provided base URL is invalid'')
     else Inr
       \<lparr> configuration = cfg,
         this_middleware = (case middleware cfg of None \<Rightarrow> [] | Some ms \<Rightarrow> ms),
         this_fetchApi = (case fetchApi cfg of None \<Rightarrow> node_fetch | Some f \<Rightarrow> f),
         this_parseError = parseError cfg,
         this_timeoutDuration = (case timeoutDuration cfg of None \<Rightarrow> 10000 | Some t \<Rightarrow> t) \<rparr>)"

subsection \<open>Query strings\<close>

text \<open>
  \<^verbatim>\<open>encodeURIComponent\<close> on a string of UTF-8 bytes: the unreserved characters stay, every
  other byte becomes \<^verbatim>\<open>%XX\<close>.
\<close>

definition uri_unreserved :: "char \<Rightarrow> bool" where
  "uri_unreserved c \<longleftrightarrow>
     c \<in> set ''ABCDEFGHIJKLMNOPQRSTUVWXYZabcdefghijklmnopqrstuvwxyz0123456789-_.!~*()''
     \<or> c = CHR 0x27"

definition hex_digit :: "nat \<Rightarrow> char" where
  "hex_digit n = ''0123456789ABCDEF'' ! n"

definition encode_byte :: "char \<Rightarrow> string" where
  "encode_byte c =
    (if uri_unreserved c then [c]
     else [CHR ''%'', hex_digit (of_char c div 16), hex_digit (of_char c mod 16)])"

definition encodeURIComponent :: "string \<Rightarrow> string" where
  "encodeURIComponent s = concat (map encode_byte s)"

definition querystringSingleKey :: "string \<Rightarrow> jsval \<Rightarrow> string" where
  "querystringSingleKey key v =
    (case v of
       JArr xs \<Rightarrow>
         (let multiValue =
            join (''&'' @ encodeURIComponent key @ ''='')
              (map (\<lambda>singleValue. encodeURIComponent (js_String singleValue)) xs)
          in encodeURIComponent key @ ''='' @ multiValue)
     | _ \<Rightarrow> encodeURIComponent key @ ''='' @ encodeURIComponent (js_String v))"

text \<open>
  A query object is the list of its properties in the order \<^verbatim>\<open>Object.keys\<close> enumerates
  them; an object has each key once. \<^verbatim>\<open>params[key]\<close> for a key of the object is the value
  the list pairs it with.
\<close>

definition property :: "HTTPQuery \<Rightarrow> string \<Rightarrow> jsval" where
  "property params key = (case map_of params key of None \<Rightarrow> JUndefined | Some v \<Rightarrow> v)"

definition querystring :: "HTTPQuery \<Rightarrow> string" where
  "querystring params =
    join ''&''
      (filter (\<lambda>part. length part > 0)
        (map (\<lambda>key. querystringSingleKey key (property params key)) (map fst params)))"

subsection \<open>\<^verbatim>\<open>createFetchParams\<close>\<close>

text \<open>The URL (the first statements of the method).\<close>

definition build_url :: "'e BaseAPI \<Rightarrow> RequestOpts \<Rightarrow> string" where
  "build_url this context =
    (let url' = baseUrl (configuration this) @ path context in
     case query context of
       None \<Rightarrow> url'
     | Some q \<Rightarrow> if length (map fst q) \<noteq> 0 then url' @ ''?'' @ querystring q else url')"

text \<open>
  The merged headers: \<^verbatim>\<open>Object.assign\<close> of the configured and the per-request headers,
  without the keys whose value is \<^verbatim>\<open>undefined\<close>.
\<close>

definition merge_headers :: "HTTPHeaders option \<Rightarrow> HTTPHeaders option \<Rightarrow> string \<rightharpoonup> string" where
  "merge_headers configured requested =
    (let merged = (case configured of None \<Rightarrow> Map.empty | Some h \<Rightarrow> h)
                  ++ (case requested of None \<Rightarrow> Map.empty | Some h \<Rightarrow> h)
     in (\<lambda>key. case merged key of Some (Some v) \<Rightarrow> Some v | _ \<Rightarrow> None))"

text \<open>
  The override is absent, a \<^verbatim>\<open>RequestInit\<close>, or an asynchronous function of the proposed
  options and the request description.
\<close>

datatype 'e InitOverride =
    NoOverride
  | StaticInit RequestInit
  | InitOverrideFunction "RequestInit \<Rightarrow> RequestOpts \<Rightarrow> ('e, RequestInit) async"

definition serialize_body :: "init_value option \<Rightarrow> init_value" where
  "serialize_body b =
    (case b of
       None \<Rightarrow> Plain JUndefined
     | Some (FormData d) \<Rightarrow> FormData d
     | Some (URLSearchParams d) \<Rightarrow> URLSearchParams d
     | Some (Blob d) \<Rightarrow> Blob d
     | Some (Plain JUndefined) \<Rightarrow> Plain JUndefined
     | Some v \<Rightarrow> JSON_text v)"

definition createFetchParams ::
  "'e BaseAPI \<Rightarrow> RequestOpts \<Rightarrow> 'e InitOverride \<Rightarrow> ('e, FetchParams) async" where
  "createFetchParams this context initOverrides e =
    (let url' = build_url this context;
         headers' = merge_headers (Configuration.headers (configuration this))
                      (RequestOpts.headers context);
         initParams =
           [''method'' \<mapsto> Plain (JStr (method context)),
            ''headers'' \<mapsto> HeadersObject headers',
            ''body'' \<mapsto> (case body context of None \<Rightarrow> Plain JUndefined | Some b \<Rightarrow> b),
            ''agent'' \<mapsto> (case agent (configuration this) of
                               None \<Rightarrow> Plain JUndefined | Some a \<Rightarrow> Agent a)];
         overridden =
           (case initOverrides of
              NoOverride \<Rightarrow> (Inr Map.empty, e)
            | StaticInit i \<Rightarrow> (Inr i, e)
            | InitOverrideFunction f \<Rightarrow> f initParams context e)
     in case overridden of
          (Inl x, e') \<Rightarrow> (Inl x, e')
        | (Inr override, e') \<Rightarrow>
            (let overriddenInit = initParams ++ override in
             (Inr \<lparr> url = url',
                    init = overriddenInit(''body'' \<mapsto> serialize_body (overriddenInit ''body'')) \<rparr>,
              e')))"

subsection \<open>\<^verbatim>\<open>fetchWithTimeout\<close>\<close>

text \<open>
  One call of the transport, with the signal of a fresh controller placed before the
  options. The timer shows only through the transport: when it fires the controller
  aborts, and the transport rejects with an \<^verbatim>\<open>AbortError\<close>.
\<close>

definition fetchWithTimeout :: "'e BaseAPI \<Rightarrow> 'e FetchAPI" where
  "fetchWithTimeout this url' init' e =
    (case this_fetchApi this url' ([''signal'' \<mapsto> AbortSignal] ++ init') e of
       (Inl err, e') \<Rightarrow> (if instanceof_AbortError err then (Inl TimeoutError, e') else (Inl err, e'))
     | (Inr response, e') \<Rightarrow> (Inr response, e'))"

subsection \<open>\<^verbatim>\<open>fetch\<close>\<close>

text \<open>
  \<^verbatim>\<open>retry\<close> is imported from \<^verbatim>\<open>./retry\<close>, which is not among the sources. It is a
  parameter: a function of the action to run and of the retry configuration.
\<close>

type_synonym 'e retry_function =
  "('e, Response) async \<Rightarrow> RetryConfiguration \<Rightarrow> ('e, Response) async"

text \<open>\<^verbatim>\<open>{...this.configuration.retry}\<close>: spreading \<^verbatim>\<open>undefined\<close> gives the empty object.\<close>

definition spread_retry :: "RetryConfiguration option \<Rightarrow> RetryConfiguration" where
  "spread_retry r =
    (case r of
       None \<Rightarrow> \<lparr> enabled = None, maxRetries = None, retryWhen = None \<rparr>
     | Some c \<Rightarrow> c)"

text \<open>\<^verbatim>\<open>this.configuration.retry?.enabled !== false\<close>\<close>

definition retry_enabled :: "'e BaseAPI \<Rightarrow> bool" where
  "retry_enabled this =
    ((case retry (configuration this) of None \<Rightarrow> None | Some c \<Rightarrow> enabled c) \<noteq> Some False)"

text \<open>The three loops over the middleware.\<close>

fun run_pre :: "'e BaseAPI \<Rightarrow> 'e Middleware list \<Rightarrow> FetchParams \<Rightarrow> ('e, FetchParams) async" where
  "run_pre this [] fetchParams e = (Inr fetchParams, e)"
| "run_pre this (m # ms) fetchParams e =
    (case pre m of
       None \<Rightarrow> run_pre this ms fetchParams e
     | Some hook \<Rightarrow>
        (case hook (fetchWithTimeout this) (url fetchParams) (init fetchParams) e of
           (Inl x, e') \<Rightarrow> (Inl x, e')
         | (Inr None, e') \<Rightarrow> run_pre this ms fetchParams e'
         | (Inr (Some replaced), e') \<Rightarrow> run_pre this ms replaced e'))"

fun run_onError ::
  "'e BaseAPI \<Rightarrow> 'e Middleware list \<Rightarrow> FetchParams \<Rightarrow> thrown \<Rightarrow> Response option
    \<Rightarrow> ('e, Response option) async" where
  "run_onError this [] fetchParams err response e = (Inr response, e)"
| "run_onError this (m # ms) fetchParams err response e =
    (case onError m of
       None \<Rightarrow> run_onError this ms fetchParams err response e
     | Some hook \<Rightarrow>
        (case hook (fetchWithTimeout this) (url fetchParams) (init fetchParams) err response e of
           (Inl x, e') \<Rightarrow> (Inl x, e')
         | (Inr None, e') \<Rightarrow> run_onError this ms fetchParams err response e'
         | (Inr (Some replaced), e') \<Rightarrow> run_onError this ms fetchParams err (Some replaced) e'))"

fun run_post ::
  "'e BaseAPI \<Rightarrow> 'e Middleware list \<Rightarrow> FetchParams \<Rightarrow> Response \<Rightarrow> ('e, Response) async" where
  "run_post this [] fetchParams response e = (Inr response, e)"
| "run_post this (m # ms) fetchParams response e =
    (case post m of
       None \<Rightarrow> run_post this ms fetchParams response e
     | Some hook \<Rightarrow>
        (case hook (this_fetchApi this) (url fetchParams) (init fetchParams) response e of
           (Inl x, e') \<Rightarrow> (Inl x, e')
         | (Inr None, e') \<Rightarrow> run_post this ms fetchParams response e'
         | (Inr (Some replaced), e') \<Rightarrow> run_post this ms fetchParams replaced e'))"

text \<open>The body of the \<^verbatim>\<open>try\<close> block: the exchange, inside the retry loop or not.\<close>

definition exchange :: "'e retry_function \<Rightarrow> 'e BaseAPI \<Rightarrow> FetchParams \<Rightarrow> ('e, Response) async" where
  "exchange retry_fn this fetchParams =
    (if retry_enabled this
     then retry_fn (fetchWithTimeout this (url fetchParams) (init fetchParams))
            (spread_retry (retry (configuration this)))
     else fetchWithTimeout this (url fetchParams) (init fetchParams))"

definition interceptors_message :: string where
  "interceptors_message =
     ''The request failed and the interceptors did not return an alternative response''"

definition fetch :: "'e retry_function \<Rightarrow> 'e BaseAPI \<Rightarrow> 'e FetchAPI" where
  "fetch retry_fn this url' init' e =
    (case run_pre this (this_middleware this) \<lparr> url = url', init = init' \<rparr> e of
       (Inl x, e1) \<Rightarrow> (Inl x, e1)
     | (Inr fetchParams, e1) \<Rightarrow>
        (case exchange retry_fn this fetchParams e1 of
           (Inr response, e2) \<Rightarrow> run_post this (this_middleware this) fetchParams response e2
         | (Inl err, e2) \<Rightarrow>
            (case run_onError this (this_middleware this) fetchParams err None e2 of
               (Inl x, e3) \<Rightarrow> (Inl x, e3)
             | (Inr None, e3) \<Rightarrow>
                 (if instanceof_Error err then (Inl (FetchError err interceptors_message), e3)
                  else (Inl err, e3))
             | (Inr (Some response), e3) \<Rightarrow>
                 run_post this (this_middleware this) fetchParams response e3)))"

subsection \<open>\<^verbatim>\<open>request\<close>\<close>

definition request ::
  "'e retry_function \<Rightarrow> 'e BaseAPI \<Rightarrow> RequestOpts \<Rightarrow> 'e InitOverride \<Rightarrow> ('e, Response) async" where
  "request retry_fn this context initOverrides e =
    (case createFetchParams this context initOverrides e of
       (Inl x, e1) \<Rightarrow> (Inl x, e1)
     | (Inr params, e1) \<Rightarrow>
        (case fetch retry_fn this (url params) (init params) e1 of
           (Inl x, e2) \<Rightarrow> (Inl x, e2)
         | (Inr response, e2) \<Rightarrow>
            (if status response \<ge> 200 \<and> status response < 300 then (Inr response, e2)
             else (case this_parseError this response e2 of (error, e3) \<Rightarrow> (Inl error, e3)))))"

subsection \<open>Sample configurations\<close>

text \<open>
  An environment that counts the calls the transport receives and records the responses the
  error parser is handed; transports that reject or answer with a given status; a sample
  of a retry function, which runs a rejected action a second time; and the request of the
  end-to-end scenario of the specification.
\<close>

record probe =
  calls :: nat
  parsed :: "Response list"

definition fresh :: probe where
  "fresh = \<lparr> calls = 0, parsed = [] \<rparr>"

definition rejecting :: "thrown \<Rightarrow> probe FetchAPI" where
  "rejecting err url' init' e = (Inl err, e\<lparr> calls := Suc (calls e) \<rparr>)"

definition answering :: "int \<Rightarrow> probe FetchAPI" where
  "answering code url' init' e =
     (Inr \<lparr> status = code, statusText = [], content = [] \<rparr>, e\<lparr> calls := Suc (calls e) \<rparr>)"

definition recording_parser :: "Response \<Rightarrow> probe \<Rightarrow> thrown \<times> probe" where
  "recording_parser response e =
     (OtherError (''status '' @ string_of_int (status response)),
      e\<lparr> parsed := parsed e @ [response] \<rparr>)"

definition retry_again :: "probe retry_function" where
  "retry_again action cfg e =
     (case action e of (Inl err, e') \<Rightarrow> action e' | (Inr response, e') \<Rightarrow> (Inr response, e'))"

definition retries_off :: "RetryConfiguration option" where
  "retries_off = Some \<lparr> enabled = Some False, maxRetries = None, retryWhen = None \<rparr>"

definition sample_api :: "probe FetchAPI \<Rightarrow> RetryConfiguration option \<Rightarrow> probe BaseAPI" where
  "sample_api transport retries =
     \<lparr> configuration =
         \<lparr> baseUrl = ''https://tenant.example.com/api/v2'', parseError = recording_parser,
           fetchApi = Some transport, middleware = None, headers = None, agent = None,
           timeoutDuration = None, retry = retries \<rparr>,
       this_middleware = [],
       this_fetchApi = transport,
       this_parseError = recording_parser,
       this_timeoutDuration = 10000 \<rparr>"

definition sample_request :: RequestOpts where
  "sample_request =
     \<lparr> path = ''/logs/5'', method = ''GET'', headers = None, query = None, body = None \<rparr>"

definition no_options :: RequestInit where
  "no_options = Map.empty"

section \<open>Properties of the validator\<close>

subsection \<open>Unfolding\<close>

lemmas check_defs =
  check_algorithm_def check_issuer_def check_subject_def check_audience_def
  check_organization_def check_expiration_def check_issued_at_def check_nonce_def
  check_authorized_party_def check_authentication_time_def

lemmas sample_defs =
  sample_validator_def sample_header_def sample_payload_def no_expectations_def
  new_IDTokenValidator_def DEFAULT_CLOCK_TOLERANCE_def accepting_def

lemmas jose_defs = jose_jwtVerify_def jwt_claims_set_def checkAudiencePresence_def decoding_def

subsection \<open>Order of the checks\<close>

lemma validate_claims_run_checks:
  "validate_claims this header payload opts d =
     run_checks (stage_results this header payload opts d) payload"
  by (simp add: validate_claims_def stage_results_def Let_def)

lemma run_checks_Inr:
  "run_checks rs p = Inr q \<longleftrightarrow> q = p \<and> (\<forall>i<length rs. rs ! i = None)"
proof (induction rs)
  case Nil
  show ?case by auto
next
  case (Cons r rs)
  show ?case
  proof (cases r)
    case None
    then show ?thesis using Cons.IH
      by (auto simp: or_else_def nth_Cons split: nat.splits)
  next
    case (Some e)
    then show ?thesis by (auto simp: or_else_def)
  qed
qed

lemma run_checks_Inl:
  "run_checks rs p = Inl err \<longleftrightarrow>
     (\<exists>i e. i < length rs \<and> rs ! i = Some e \<and> (\<forall>j<i. rs ! j = None) \<and> err = ValidatorError e)"
proof (induction rs)
  case Nil
  show ?case by simp
next
  case (Cons r rs)
  show ?case
  proof (cases r)
    case None
    have "run_checks (r # rs) p = Inl err \<longleftrightarrow> run_checks rs p = Inl err"
      using None by (simp add: or_else_def)
    also have "\<dots> \<longleftrightarrow> (\<exists>i e. i < length rs \<and> rs ! i = Some e \<and> (\<forall>j<i. rs ! j = None)
        \<and> err = ValidatorError e)"
      by (rule Cons.IH)
    also have "\<dots> \<longleftrightarrow> (\<exists>i e. i < length (r # rs) \<and> (r # rs) ! i = Some e
        \<and> (\<forall>j<i. (r # rs) ! j = None) \<and> err = ValidatorError e)" (is "?L \<longleftrightarrow> ?R")
    proof
      assume ?L
      then obtain i e where i: "i < length rs" "rs ! i = Some e" "\<forall>j<i. rs ! j = None"
        "err = ValidatorError e" by blast
      have "\<forall>j<Suc i. (r # rs) ! j = None"
        using i(3) None by (auto simp: nth_Cons split: nat.splits)
      with i show ?R by (intro exI[of _ "Suc i"] exI[of _ e]) simp
    next
      assume ?R
      then obtain i e where i: "i < length (r # rs)" "(r # rs) ! i = Some e"
        "\<forall>j<i. (r # rs) ! j = None" "err = ValidatorError e" by blast
      from i(2) None obtain k where k: "i = Suc k" by (cases i) auto
      have "\<forall>j<k. rs ! j = None"
      proof (intro allI impI)
        fix j assume "j < k"
        then have "Suc j < i" using k by simp
        with i(3) have "(r # rs) ! Suc j = None" by blast
        then show "rs ! j = None" by simp
      qed
      with i k show ?L by (intro exI[of _ k] exI[of _ e]) simp
    qed
    finally show ?thesis .
  next
    case (Some e)
    show ?thesis
    proof
      assume "run_checks (r # rs) p = Inl err"
      with Some have "err = ValidatorError e" by (simp add: or_else_def)
      with Some show "\<exists>i e. i < length (r # rs) \<and> (r # rs) ! i = Some e
        \<and> (\<forall>j<i. (r # rs) ! j = None) \<and> err = ValidatorError e"
        by (intro exI[of _ 0] exI[of _ e]) simp
    next
      assume "\<exists>i e. i < length (r # rs) \<and> (r # rs) ! i = Some e
        \<and> (\<forall>j<i. (r # rs) ! j = None) \<and> err = ValidatorError e"
      then obtain i e' where i: "i < length (r # rs)" "(r # rs) ! i = Some e'"
        "\<forall>j<i. (r # rs) ! j = None" "err = ValidatorError e'" by blast
      have "i = 0"
      proof (rule ccontr)
        assume "i \<noteq> 0"
        then have "(r # rs) ! 0 = None" using i(3) by blast
        with Some show False by simp
      qed
      with i Some have "e' = e" by simp
      with i Some show "run_checks (r # rs) p = Inl err" by (simp add: or_else_def)
    qed
  qed
qed


lemma check_algorithm_stage: "check_algorithm this header = Some e \<Longrightarrow> stage_of e = Signature"
  by (auto simp: check_algorithm_def split: if_splits)

lemma check_issuer_stage: "check_issuer this payload = Some e \<Longrightarrow> stage_of e = Issuer"
  by (auto simp: check_issuer_def split: if_splits)

lemma check_subject_stage: "check_subject payload = Some e \<Longrightarrow> stage_of e = Subject"
  by (auto simp: check_subject_def split: if_splits)

lemma check_audience_stage: "check_audience this payload = Some e \<Longrightarrow> stage_of e = Audience"
  by (auto simp: check_audience_def split: if_splits)

lemma check_organization_stage:
  "check_organization payload expected = Some e \<Longrightarrow> stage_of e = Organization"
  by (auto simp: check_organization_def split: if_splits option.splits)

lemma check_expiration_stage:
  "check_expiration this payload now = Some e \<Longrightarrow> stage_of e = Expiration"
  by (auto simp: check_expiration_def Let_def split: if_splits)

lemma check_issued_at_stage: "check_issued_at payload = Some e \<Longrightarrow> stage_of e = IssuedAt"
  by (auto simp: check_issued_at_def split: if_splits)

lemma check_nonce_stage: "check_nonce payload expected = Some e \<Longrightarrow> stage_of e = Nonce"
  by (auto simp: check_nonce_def split: if_splits option.splits)

lemma check_authorized_party_stage:
  "check_authorized_party this payload = Some e \<Longrightarrow> stage_of e = AuthorizedParty"
  by (auto simp: check_authorized_party_def split: if_splits)

lemma check_authentication_time_stage:
  "check_authentication_time this payload expected now = Some e
    \<Longrightarrow> stage_of e = AuthenticationTime"
  by (auto simp: check_authentication_time_def Let_def split: if_splits option.splits)

lemmas check_stage =
  check_algorithm_stage check_issuer_stage check_subject_stage check_audience_stage
  check_organization_stage check_expiration_stage check_issued_at_stage check_nonce_stage
  check_authorized_party_stage check_authentication_time_stage

lemma stage_results_stages:
  "list_all2 (\<lambda>r s. \<forall>e. r = Some e \<longrightarrow> stage_of e = s)
     (stage_results this header payload opts d) stages"
  by (simp add: stage_results_def stages_def check_stage)

lemma stage_results_stage:
  assumes "i < length (stage_results this header payload opts d)"
    and "stage_results this header payload opts d ! i = Some e"
  shows "stage_of e = stages ! i"
  using list_all2_nthD[OF stage_results_stages assms(1)] assms(2) by simp

lemma message_label: "\<exists>rest. message e = label (stage_of e) @ rest"
  by (cases e) simp_all

lemma first_violation_verified:
  fixes jwtVerify :: "'j jwtVerify"
  assumes verified: "jwtVerify idToken
             (if this_alg this = ''HS256'' then this_secret this else this_jwks this)
             \<lparr> issuer = this_issuer this, audience = this_audience this \<rparr>
           = Inr (header, payload)"
    and rs: "rs = stage_results this header payload opts d"
  shows "(validate jwtVerify this idToken opts d = Inl err \<longleftrightarrow>
           (\<exists>i e. i < length rs \<and> rs ! i = Some e \<and> (\<forall>j<i. rs ! j = None)
              \<and> stage_of e = stages ! i \<and> (\<exists>rest. message e = label (stages ! i) @ rest)
              \<and> err = ValidatorError e))
       \<and> (validate jwtVerify this idToken opts d = Inr q \<longleftrightarrow>
           q = payload \<and> (\<forall>i<length rs. rs ! i = None))"
proof -
  have v: "validate jwtVerify this idToken opts d = run_checks rs payload"
    using verified by (simp add: validate_def validate_claims_run_checks rs)
  have "(\<exists>i e. i < length rs \<and> rs ! i = Some e \<and> (\<forall>j<i. rs ! j = None)
              \<and> stage_of e = stages ! i \<and> (\<exists>rest. message e = label (stages ! i) @ rest)
              \<and> err = ValidatorError e)
      \<longleftrightarrow> (\<exists>i e. i < length rs \<and> rs ! i = Some e \<and> (\<forall>j<i. rs ! j = None)
              \<and> err = ValidatorError e)" (is "?A \<longleftrightarrow> ?B")
  proof
    assume ?A then show ?B by blast
  next
    assume ?B
    then obtain i e where i: "i < length rs" "rs ! i = Some e" "\<forall>j<i. rs ! j = None"
      "err = ValidatorError e" by blast
    have st: "stage_of e = stages ! i" using stage_results_stage i(1,2) rs by blast
    obtain rest where "message e = label (stage_of e) @ rest" using message_label by blast
    with st have "\<exists>rest. message e = label (stages ! i) @ rest" by auto
    with i st show ?A by blast
  qed
  then show ?thesis
    unfolding v by (simp only: run_checks_Inl run_checks_Inr)
qed

lemma check_algorithm_violated:
  "check_algorithm this header \<noteq> None \<longleftrightarrow> violated Signature this header payload opts now"
  by (simp add: check_algorithm_def)

lemma check_issuer_violated:
  "check_issuer this payload \<noteq> None \<longleftrightarrow> violated Issuer this header payload opts now"
  by (cases "iss payload") (auto simp: check_issuer_def present_string_def)

lemma check_subject_violated:
  "check_subject payload \<noteq> None \<longleftrightarrow> violated Subject this header payload opts now"
  by (cases "sub payload") (auto simp: check_subject_def present_string_def)

lemma check_audience_violated:
  "check_audience this payload \<noteq> None \<longleftrightarrow> violated Audience this header payload opts now"
  by (cases "aud payload") (auto simp: check_audience_def)

lemma check_organization_violated:
  "check_organization payload (organization opts) \<noteq> None
    \<longleftrightarrow> violated Organization this header payload opts now"
  by (cases "org_id payload")
    (auto simp: check_organization_def present_string_def split: option.splits)

lemma check_expiration_violated:
  "check_expiration this payload now \<noteq> None
    \<longleftrightarrow> violated Expiration this header payload opts now"
  by (cases "exp payload") (auto simp: check_expiration_def present_number_def Let_def)

lemma check_issued_at_violated:
  "check_issued_at payload \<noteq> None \<longleftrightarrow> violated IssuedAt this header payload opts now"
  by (cases "iat payload") (auto simp: check_issued_at_def present_number_def)

lemma check_nonce_violated:
  "check_nonce payload (ValidateOptions.nonce opts) \<noteq> None
    \<longleftrightarrow> violated Nonce this header payload opts now"
  by (cases "JWTPayload.nonce payload")
    (auto simp: check_nonce_def present_string_def split: option.splits)

lemma check_authorized_party_violated:
  "check_authorized_party this payload \<noteq> None
    \<longleftrightarrow> violated AuthorizedParty this header payload opts now"
proof (cases "aud payload")
  case (JArr xs)
  then show ?thesis
    by (cases "azp payload") (auto simp: check_authorized_party_def present_string_def)
qed (auto simp: check_authorized_party_def)

lemma check_authentication_time_violated:
  "check_authentication_time this payload (maxAge opts) now \<noteq> None
    \<longleftrightarrow> violated AuthenticationTime this header payload opts now"
  by (cases "auth_time payload")
    (auto simp: check_authentication_time_def present_number_def Let_def split: option.splits)

lemmas check_violated =
  check_algorithm_violated check_issuer_violated check_subject_violated
  check_audience_violated check_organization_violated check_expiration_violated
  check_issued_at_violated check_nonce_violated check_authorized_party_violated
  check_authentication_time_violated

lemma stage_results_violated:
  "list_all2 (\<lambda>r s. (r \<noteq> None) = violated s this header payload opts (d div 1000))
     (stage_results this header payload opts d) stages"
  unfolding stage_results_def stages_def
  by (simp only: list_all2_Cons list.rel_inject list_all2_Nil check_violated simp_thms)

lemma stage_result_violated:
  assumes "i < length stages"
  shows "(stage_results this header payload opts d ! i \<noteq> None)
     = violated (stages ! i) this header payload opts (d div 1000)"
proof -
  have "length (stage_results this header payload opts d) = length stages"
    by (simp add: stage_results_def stages_def)
  with assms have "i < length (stage_results this header payload opts d)" by simp
  then show ?thesis
    by (rule list_all2_nthD[OF stage_results_violated])
qed

lemma validate_jose_refused_signature:
  assumes "compactVerify idToken
             (if this_alg this = ''HS256'' then this_secret this else this_jwks this) = Inl x"
  shows "validate (jose_jwtVerify compactVerify d) this idToken opts d = Inl (JoseError (JWSError x))"
  using assms by (simp add: validate_def jose_jwtVerify_def)

lemma validate_jose_refused_claims:
  assumes "compactVerify idToken
             (if this_alg this = ''HS256'' then this_secret this else this_jwks this)
           = Inr (header, payload)"
    and "jwt_claims_set \<lparr> issuer = this_issuer this, audience = this_audience this \<rparr> d payload
           = Some x"
  shows "validate (jose_jwtVerify compactVerify d) this idToken opts d = Inl (JoseError x)"
  using assms by (simp add: validate_def jose_jwtVerify_def)

lemma jose_accepts:
  assumes "compactVerify idToken
             (if this_alg this = ''HS256'' then this_secret this else this_jwks this)
           = Inr (header, payload)"
    and "jwt_claims_set \<lparr> issuer = this_issuer this, audience = this_audience this \<rparr> d payload
           = (None :: 'j jose_error option)"
  shows "jose_jwtVerify compactVerify d idToken
             (if this_alg this = ''HS256'' then this_secret this else this_jwks this)
             \<lparr> issuer = this_issuer this, audience = this_audience this \<rparr>
           = (Inr (header, payload) :: 'j jose_error + (JWSHeaderParameters \<times> JWTPayload))"
  using assms by (simp add: jose_jwtVerify_def)

lemma validate_jose_cases:
  assumes "compactVerify idToken
             (if this_alg this = ''HS256'' then this_secret this else this_jwks this)
           = Inr (header, payload)"
  shows "validate (jose_jwtVerify compactVerify d) this idToken opts d
     = (case jwt_claims_set \<lparr> issuer = this_issuer this, audience = this_audience this \<rparr>
               d payload of
          Some x \<Rightarrow> Inl (JoseError x)
        | None \<Rightarrow> validate_claims this header payload opts d)"
  using assms by (simp add: validate_def jose_jwtVerify_def split: option.split)

text \<open>
  Against claim C3 as stated: a token without \<^verbatim>\<open>sub\<close> whose \<^verbatim>\<open>exp\<close> lies in the past violates
  the subject check, third in the stated order, and the expiration check, sixth. The
  library call, which comes before all of them and validates \<^verbatim>\<open>exp\<close> itself, refuses the
  token as expired: the error raised is the library's, not the subject error of the
  earliest violated check.
\<close>

theorem expired_token_without_subject_counterexample:
  "violated Subject sample_validator sample_header
      (sample_payload\<lparr> sub := JUndefined, exp := JNum 5 \<rparr>) no_expectations 1700000000
   \<and> violated Expiration sample_validator sample_header
      (sample_payload\<lparr> sub := JUndefined, exp := JNum 5 \<rparr>) no_expectations 1700000000
   \<and> validate
       (jose_jwtVerify
         (decoding sample_header (sample_payload\<lparr> sub := JUndefined, exp := JNum 5 \<rparr>))
         1700000000000)
       sample_validator ''token'' no_expectations 1700000000000
     = Inl (JoseError JWTExpired)
   \<and> validate
       (jose_jwtVerify
         (decoding sample_header (sample_payload\<lparr> sub := JUndefined, exp := JNum 5 \<rparr>))
         1700000000000)
       sample_validator ''token'' no_expectations 1700000000000
     \<noteq> Inl (ValidatorError SubMissing)"
  by (simp add: validate_def jose_defs sample_defs present_string_def present_number_def)

text \<open>
  Claim C3, amended. \<^verbatim>\<open>validate\<close> first calls \<^verbatim>\<open>jose.jwtVerify\<close>, which verifies the signature
  and then validates \<^verbatim>\<open>iss\<close>, \<^verbatim>\<open>aud\<close>, \<^verbatim>\<open>iat\<close>, \<^verbatim>\<open>nbf\<close> and \<^verbatim>\<open>exp\<close> on its own, with no clock
  tolerance. An error of either part is raised by \<^verbatim>\<open>validate\<close> as it is, and none of the
  checks of \<^verbatim>\<open>validate\<close> is evaluated. When the library accepts, the ten checks (algorithm
  header, issuer, subject, audience, organization, expiration, issued-at, nonce,
  authorized party, authentication time) are evaluated in that order and the first
  violated one ends the validation: an error is raised exactly when some check is violated,
  it is the error of the earliest violated check, it belongs to that check and its message
  opens with the name of that claim; the payload is returned exactly when no check is
  violated. Whether a check is violated is \<open>violated\<close>, stated apart from the code of the
  checks.
\<close>

theorem validate_order_after_verification:
  fixes compactVerify :: "string \<Rightarrow> key \<Rightarrow> 'j + (JWSHeaderParameters \<times> JWTPayload)"
  assumes secret: "secret = (if this_alg this = ''HS256'' then this_secret this else this_jwks this)"
    and options: "options = \<lparr> issuer = this_issuer this, audience = this_audience this \<rparr>"
    and now: "now = d div 1000"
  shows "(\<forall>x. compactVerify idToken secret = Inl x
           \<longrightarrow> validate (jose_jwtVerify compactVerify d) this idToken opts d
                 = Inl (JoseError (JWSError x)))
       \<and> (\<forall>header payload (x :: 'j jose_error).
             compactVerify idToken secret = Inr (header, payload)
             \<and> jwt_claims_set options d payload = Some x
           \<longrightarrow> validate (jose_jwtVerify compactVerify d) this idToken opts d
                 = Inl (JoseError x))
       \<and> (\<forall>header payload.
             compactVerify idToken secret = Inr (header, payload)
             \<and> jwt_claims_set options d payload = (None :: 'j jose_error option)
           \<longrightarrow> (\<forall>err. validate (jose_jwtVerify compactVerify d) this idToken opts d = Inl err
                   \<longleftrightarrow> (\<exists>i e. i < length stages
                          \<and> violated (stages ! i) this header payload opts now
                          \<and> (\<forall>j<i. \<not> violated (stages ! j) this header payload opts now)
                          \<and> stage_results this header payload opts d ! i = Some e
                          \<and> stage_of e = stages ! i
                          \<and> (\<exists>rest. message e = label (stages ! i) @ rest)
                          \<and> err = ValidatorError e))
             \<and> (\<forall>q. validate (jose_jwtVerify compactVerify d) this idToken opts d = Inr q
                   \<longleftrightarrow> q = payload
                       \<and> (\<forall>i<length stages.
                             \<not> violated (stages ! i) this header payload opts now)))"
proof (intro conjI allI impI)
  fix x
  assume "compactVerify idToken secret = Inl x"
  then show "validate (jose_jwtVerify compactVerify d) this idToken opts d
      = Inl (JoseError (JWSError x))"
    unfolding secret by (rule validate_jose_refused_signature)
next
  fix header payload and x :: "'j jose_error"
  assume "compactVerify idToken secret = Inr (header, payload)
      \<and> jwt_claims_set options d payload = Some x"
  then show "validate (jose_jwtVerify compactVerify d) this idToken opts d = Inl (JoseError x)"
    unfolding secret options by (elim conjE) (rule validate_jose_refused_claims)
next
  fix header payload and err :: "'j jose_error validate_error"
  let ?rs = "stage_results this header payload opts d"
  assume a: "compactVerify idToken secret = Inr (header, payload)
      \<and> jwt_claims_set options d payload = (None :: 'j jose_error option)"
  have acc: "jose_jwtVerify compactVerify d idToken
             (if this_alg this = ''HS256'' then this_secret this else this_jwks this)
             \<lparr> issuer = this_issuer this, audience = this_audience this \<rparr>
           = (Inr (header, payload) :: 'j jose_error + (JWSHeaderParameters \<times> JWTPayload))"
    using a unfolding secret options by (elim conjE) (rule jose_accepts)
  note fv = first_violation_verified[where jwtVerify = "jose_jwtVerify compactVerify d"
      and opts = opts and d = d and err = err, OF acc refl]
  have len: "length ?rs = length stages"
    by (simp add: stage_results_def stages_def)
  have v: "(?rs ! i \<noteq> None) = violated (stages ! i) this header payload opts now"
    if "i < length stages" for i
    unfolding now using that by (rule stage_result_violated)
  have "(\<exists>i e. i < length ?rs \<and> ?rs ! i = Some e \<and> (\<forall>j<i. ?rs ! j = None)
            \<and> stage_of e = stages ! i \<and> (\<exists>rest. message e = label (stages ! i) @ rest)
            \<and> err = ValidatorError e)
       \<longleftrightarrow> (\<exists>i e. i < length stages
            \<and> violated (stages ! i) this header payload opts now
            \<and> (\<forall>j<i. \<not> violated (stages ! j) this header payload opts now)
            \<and> ?rs ! i = Some e
            \<and> stage_of e = stages ! i
            \<and> (\<exists>rest. message e = label (stages ! i) @ rest)
            \<and> err = ValidatorError e)" (is "?L \<longleftrightarrow> ?R")
  proof
    assume ?L
    then obtain i e where i: "i < length ?rs" "?rs ! i = Some e" "\<forall>j<i. ?rs ! j = None"
      "stage_of e = stages ! i" "\<exists>rest. message e = label (stages ! i) @ rest"
      "err = ValidatorError e" by blast
    have il: "i < length stages" using i(1) len by simp
    have vi: "violated (stages ! i) this header payload opts now"
      using v[OF il] i(2) by simp
    have vj: "\<forall>j<i. \<not> violated (stages ! j) this header payload opts now"
    proof (intro allI impI)
      fix j assume j: "j < i"
      then have "j < length stages" using il by simp
      from v[OF this] i(3) j show "\<not> violated (stages ! j) this header payload opts now"
        by simp
    qed
    show ?R
      using il vi vj i(2,4,5,6) by (intro exI[of _ i] exI[of _ e] conjI)
  next
    assume ?R
    then obtain i e where i: "i < length stages"
      "\<forall>j<i. \<not> violated (stages ! j) this header payload opts now"
      "?rs ! i = Some e" "stage_of e = stages ! i"
      "\<exists>rest. message e = label (stages ! i) @ rest" "err = ValidatorError e"
      by blast
    have il: "i < length ?rs" using i(1) len by simp
    have nj: "\<forall>j<i. ?rs ! j = None"
    proof (intro allI impI)
      fix j assume j: "j < i"
      then have "j < length stages" using i(1) by simp
      from v[OF this] i(2) j show "?rs ! j = None" by simp
    qed
    show ?L
      using il i(3) nj i(4,5,6) by (intro exI[of _ i] exI[of _ e] conjI)
  qed
  with conjunct1[OF fv]
  show "validate (jose_jwtVerify compactVerify d) this idToken opts d = Inl err
      \<longleftrightarrow> (\<exists>i e. i < length stages
            \<and> violated (stages ! i) this header payload opts now
            \<and> (\<forall>j<i. \<not> violated (stages ! j) this header payload opts now)
            \<and> stage_results this header payload opts d ! i = Some e
            \<and> stage_of e = stages ! i
            \<and> (\<exists>rest. message e = label (stages ! i) @ rest)
            \<and> err = ValidatorError e)"
    by simp
next
  fix header payload q
  let ?rs = "stage_results this header payload opts d"
  assume a: "compactVerify idToken secret = Inr (header, payload)
      \<and> jwt_claims_set options d payload = (None :: 'j jose_error option)"
  have acc: "jose_jwtVerify compactVerify d idToken
             (if this_alg this = ''HS256'' then this_secret this else this_jwks this)
             \<lparr> issuer = this_issuer this, audience = this_audience this \<rparr>
           = (Inr (header, payload) :: 'j jose_error + (JWSHeaderParameters \<times> JWTPayload))"
    using a unfolding secret options by (elim conjE) (rule jose_accepts)
  note fv = first_violation_verified[where jwtVerify = "jose_jwtVerify compactVerify d"
      and opts = opts and d = d and q = q, OF acc refl]
  have len: "length ?rs = length stages"
    by (simp add: stage_results_def stages_def)
  have v: "(?rs ! i \<noteq> None) = violated (stages ! i) this header payload opts now"
    if "i < length stages" for i
    unfolding now using that by (rule stage_result_violated)
  have "(\<forall>i<length ?rs. ?rs ! i = None)
      \<longleftrightarrow> (\<forall>i<length stages. \<not> violated (stages ! i) this header payload opts now)"
    unfolding len using v by auto
  with conjunct2[OF fv]
  show "validate (jose_jwtVerify compactVerify d) this idToken opts d = Inr q
      \<longleftrightarrow> q = payload
          \<and> (\<forall>i<length stages. \<not> violated (stages ! i) this header payload opts now)"
    by simp
qed

theorem validate_order_after_verification_witness:
  "validate
      (jose_jwtVerify
        (decoding sample_header (sample_payload\<lparr> sub := JUndefined, iat := JNum 0 \<rparr>))
        1699999999000)
      sample_validator ''token'' no_expectations 1699999999000
     = Inl (ValidatorError SubMissing)
   \<and> validate
      (jose_jwtVerify
        (decoding \<lparr> alg = ''HS256'' \<rparr> (sample_payload\<lparr> iss := JStr ''https://evil.example.com/'' \<rparr>))
        1699999999000)
      sample_validator ''token'' no_expectations 1699999999000
     = Inl (JoseError (JWTClaimValidationFailed ''iss''))"
proof -
  let ?p = "sample_payload\<lparr> sub := JUndefined, iat := JNum 0 \<rparr>"
  let ?p' = "sample_payload\<lparr> iss := JStr ''https://evil.example.com/'' \<rparr>"
  let ?h' = "\<lparr> alg = ''HS256'' \<rparr>"
  let ?rs = "stage_results sample_validator sample_header ?p no_expectations 1699999999000"
  let ?secret = "if this_alg sample_validator = ''HS256'' then this_secret sample_validator
       else this_jwks sample_validator"
  let ?options = "\<lparr> issuer = this_issuer sample_validator,
       audience = this_audience sample_validator \<rparr>"
  note th = validate_order_after_verification[where
      compactVerify = "decoding sample_header ?p" and this = sample_validator
      and idToken = "''token''" and opts = no_expectations and d = 1699999999000,
      OF refl refl refl]
  have acc: "decoding sample_header ?p ''token'' ?secret = Inr (sample_header, ?p)
      \<and> jwt_claims_set ?options 1699999999000 ?p = (None :: string jose_error option)"
    by (simp add: jose_defs sample_defs)
  note ok = mp[OF spec[OF spec[OF conjunct2[OF conjunct2[OF th]]]] acc]
  have rs: "?rs = [None, None, Some SubMissing, None, None, None, Some IatMissing,
      None, None, None]"
    by (simp add: stage_results_def check_defs sample_defs)
  have v2: "violated (stages ! 2) sample_validator sample_header ?p no_expectations
      (1699999999000 div 1000)"
    by (simp add: stages_def sample_defs present_string_def)
  have before: "\<forall>j<2. \<not> violated (stages ! j) sample_validator sample_header ?p
      no_expectations (1699999999000 div 1000)"
    by (simp add: less_2_cases_iff stages_def sample_defs present_string_def)
  have r2: "?rs ! 2 = Some SubMissing" and len: "2 < length stages"
    unfolding rs by (simp_all add: stages_def)
  have st: "stage_of SubMissing = stages ! 2"
    and msg: "\<exists>rest. message SubMissing = label (stages ! 2) @ rest"
    by (simp_all add: stages_def)
  have ex: "\<exists>i e. i < length stages
      \<and> violated (stages ! i) sample_validator sample_header ?p no_expectations
            (1699999999000 div 1000)
      \<and> (\<forall>j<i. \<not> violated (stages ! j) sample_validator sample_header ?p no_expectations
            (1699999999000 div 1000))
      \<and> ?rs ! i = Some e
      \<and> stage_of e = stages ! i
      \<and> (\<exists>rest. message e = label (stages ! i) @ rest)
      \<and> (ValidatorError SubMissing :: string jose_error validate_error) = ValidatorError e"
    using len v2 before r2 st msg
    by (intro exI[of _ 2] exI[of _ SubMissing] conjI refl)
  have 1: "validate (jose_jwtVerify (decoding sample_header ?p) 1699999999000)
      sample_validator ''token'' no_expectations 1699999999000
     = Inl (ValidatorError SubMissing)"
    by (rule iffD2[OF spec[OF conjunct1[OF ok]] ex])
  note th' = validate_order_after_verification[where
      compactVerify = "decoding ?h' ?p'" and this = sample_validator
      and idToken = "''token''" and opts = no_expectations and d = 1699999999000,
      OF refl refl refl]
  have ref: "decoding ?h' ?p' ''token'' ?secret = Inr (?h', ?p')
      \<and> jwt_claims_set ?options 1699999999000 ?p'
          = Some (JWTClaimValidationFailed ''iss'' :: string jose_error)"
    by (simp add: jose_defs sample_defs)
  have 2: "validate (jose_jwtVerify (decoding ?h' ?p') 1699999999000)
      sample_validator ''token'' no_expectations 1699999999000
     = Inl (JoseError (JWTClaimValidationFailed ''iss''))"
    by (rule mp[OF spec[OF spec[OF spec[OF conjunct1[OF conjunct2[OF th']]]]] ref])
  show ?thesis
    by (rule conjI[OF 1 2])
qed

subsection \<open>Algorithm substitution\<close>



subsection \<open>Falsy expectations\<close>

text \<open>
  Claim C10. An expected nonce equal to the empty string, an expected maximum age equal
  to 0 and an expected organization equal to the empty string each behave exactly as an
  expectation that was not supplied: \<^verbatim>\<open>validate\<close> returns the same result, and the block
  of the corresponding claim throws nothing, whatever the payload holds.
\<close>

theorem falsy_expectations_are_skipped:
  fixes jwtVerify :: "'a jwtVerify"
  shows "validate jwtVerify this idToken (opts\<lparr> nonce := Some [] \<rparr>) d
     = validate jwtVerify this idToken (opts\<lparr> nonce := None \<rparr>) d
   \<and> validate jwtVerify this idToken (opts\<lparr> maxAge := Some 0 \<rparr>) d
     = validate jwtVerify this idToken (opts\<lparr> maxAge := None \<rparr>) d
   \<and> validate jwtVerify this idToken (opts\<lparr> organization := Some [] \<rparr>) d
     = validate jwtVerify this idToken (opts\<lparr> organization := None \<rparr>) d
   \<and> check_nonce payload (Some []) = None
   \<and> check_authentication_time this payload (Some 0) now = None
   \<and> check_organization payload (Some []) = None"
proof -
  have "validate_claims this h p (opts\<lparr> nonce := Some [] \<rparr>) d
      = (validate_claims this h p (opts\<lparr> nonce := None \<rparr>) d :: 'a validate_error + JWTPayload)"
    and "validate_claims this h p (opts\<lparr> maxAge := Some 0 \<rparr>) d
      = (validate_claims this h p (opts\<lparr> maxAge := None \<rparr>) d :: 'a validate_error + JWTPayload)"
    and "validate_claims this h p (opts\<lparr> organization := Some [] \<rparr>) d
      = (validate_claims this h p (opts\<lparr> organization := None \<rparr>) d :: 'a validate_error + JWTPayload)"
    for h p
    by (simp_all add: validate_claims_def check_nonce_def check_authentication_time_def
        check_organization_def)
  then show ?thesis
    by (simp add: validate_def check_nonce_def check_authentication_time_def
        check_organization_def split: sum.split prod.split)
qed

theorem falsy_expectations_are_skipped_witness:
  "validate (accepting sample_header sample_payload) sample_validator ''token''
      \<lparr> nonce = Some [], maxAge = Some 0, organization = Some [] \<rparr> 1700000000000
     = Inr sample_payload
   \<and> validate (accepting sample_header sample_payload) sample_validator ''token''
      \<lparr> nonce = Some ''n-1'', maxAge = Some 0, organization = Some [] \<rparr> 1700000000000
     = Inl (ValidatorError NonceMissing)"
proof -
  let ?v = "validate (accepting sample_header sample_payload) sample_validator ''token''"
  have none: "?v \<lparr> nonce = None, maxAge = None, organization = None \<rparr> 1700000000000
      = Inr sample_payload"
    by (simp add: validate_def validate_claims_def or_else_def check_defs sample_defs)
  have n1: "?v \<lparr> nonce = Some ''n-1'', maxAge = None, organization = None \<rparr> 1700000000000
      = Inl (ValidatorError NonceMissing)"
    by (simp add: validate_def validate_claims_def or_else_def check_defs sample_defs)
  have 1: "?v \<lparr> nonce = Some [], maxAge = Some 0, organization = Some [] \<rparr> 1700000000000
      = ?v \<lparr> nonce = None, maxAge = Some 0, organization = Some [] \<rparr> 1700000000000"
    using falsy_expectations_are_skipped[where jwtVerify = "accepting sample_header sample_payload"
        and this = sample_validator and idToken = "''token''" and d = 1700000000000
        and opts = "\<lparr> nonce = None, maxAge = Some 0, organization = Some [] \<rparr>"]
    by simp
  have 2: "?v \<lparr> nonce = None, maxAge = Some 0, organization = Some [] \<rparr> 1700000000000
      = ?v \<lparr> nonce = None, maxAge = None, organization = Some [] \<rparr> 1700000000000"
    using falsy_expectations_are_skipped[where jwtVerify = "accepting sample_header sample_payload"
        and this = sample_validator and idToken = "''token''" and d = 1700000000000
        and opts = "\<lparr> nonce = None, maxAge = None, organization = Some [] \<rparr>"]
    by simp
  have 3: "?v \<lparr> nonce = None, maxAge = None, organization = Some [] \<rparr> 1700000000000
      = ?v \<lparr> nonce = None, maxAge = None, organization = None \<rparr> 1700000000000"
    using falsy_expectations_are_skipped[where jwtVerify = "accepting sample_header sample_payload"
        and this = sample_validator and idToken = "''token''" and d = 1700000000000
        and opts = "\<lparr> nonce = None, maxAge = None, organization = None \<rparr>"]
    by simp
  have 4: "?v \<lparr> nonce = Some ''n-1'', maxAge = Some 0, organization = Some [] \<rparr> 1700000000000
      = ?v \<lparr> nonce = Some ''n-1'', maxAge = None, organization = Some [] \<rparr> 1700000000000"
    using falsy_expectations_are_skipped[where jwtVerify = "accepting sample_header sample_payload"
        and this = sample_validator and idToken = "''token''" and d = 1700000000000
        and opts = "\<lparr> nonce = Some ''n-1'', maxAge = None, organization = Some [] \<rparr>"]
    by simp
  have 5: "?v \<lparr> nonce = Some ''n-1'', maxAge = None, organization = Some [] \<rparr> 1700000000000
      = ?v \<lparr> nonce = Some ''n-1'', maxAge = None, organization = None \<rparr> 1700000000000"
    using falsy_expectations_are_skipped[where jwtVerify = "accepting sample_header sample_payload"
        and this = sample_validator and idToken = "''token''" and d = 1700000000000
        and opts = "\<lparr> nonce = Some ''n-1'', maxAge = None, organization = None \<rparr>"]
    by simp
  show ?thesis
    by (simp only: 1 2 3 4 5 none n1)
qed

subsection \<open>Expiration\<close>

lemma or_else_None: "or_else None rest = rest"
  by (simp add: or_else_def)

lemma or_else_Some: "or_else (Some e) rest = Inl (ValidatorError e)"
  by (simp add: or_else_def)

lemma stages_Expiration:
  assumes "i < length stages" and "stages ! i = Expiration"
  shows "i = 5"
proof -
  have d: "distinct stages" by (simp add: stages_def)
  have l: "5 < length stages" and s: "stages ! 5 = Expiration"
    by (simp_all add: stages_def)
  have "(stages ! i = stages ! 5) = (i = 5)"
    by (rule nth_eq_iff_index_eq[OF d assms(1) l])
  with assms(2) s show ?thesis by simp
qed

lemma jwt_claims_set_expired:
  assumes "exp payload = JNum e" and "e \<le> d div 1000"
  shows "jwt_claims_set options d payload \<noteq> None"
  using assms by (simp add: jwt_claims_set_def Let_def)

lemma jwt_claims_set_only_expired:
  assumes "exp payload = JNum e" and "e \<le> d div 1000"
    and "jwt_claims_set options d (payload\<lparr> exp := JUndefined \<rparr>) = None"
  shows "jwt_claims_set options d payload = Some JWTExpired"
  using assms by (auto simp add: jwt_claims_set_def Let_def split: if_splits)

lemma jwt_claims_set_accepts_unexpired:
  assumes "exp payload = JNum e" and "jwt_claims_set options d payload = None"
  shows "d div 1000 < e"
  using assms by (simp add: jwt_claims_set_def Let_def split: if_splits)

lemma validate_claims_ExpExpired:
  assumes "validate_claims this header payload opts d = Inl (ValidatorError (ExpExpired n x))"
  shows "check_expiration this payload (d div 1000) = Some (ExpExpired n x)"
proof -
  let ?rs = "stage_results this header payload opts d"
  from assms obtain i e where i: "i < length ?rs" "?rs ! i = Some e"
    and e: "ValidatorError (ExpExpired n x) = (ValidatorError e :: 'a validate_error)"
    unfolding validate_claims_run_checks run_checks_Inl by blast
  from e have e': "e = ExpExpired n x" by simp
  have "stage_of e = stages ! i" by (rule stage_results_stage[OF i])
  then have "stages ! i = Expiration" by (simp add: e')
  moreover have "i < length stages" using i(1) by (simp add: stage_results_def stages_def)
  ultimately have "i = 5" by (rule stages_Expiration[rotated])
  with i(2) e' show ?thesis by (simp add: stage_results_def)
qed

text \<open>
  Claim C4. The claim is that a token whose other checks pass and whose \<^verbatim>\<open>exp\<close> is a present
  number is accepted at the time \<open>exp + t\<close> and refused with the expiration error at
  \<open>exp + t + 1\<close>, for the clock tolerance \<open>t\<close>. The program does otherwise, because the
  tolerance is not handed to the library call that comes first. For a token the signature
  verification decodes, with \<^verbatim>\<open>exp\<close> the number \<open>e\<close>:
  from the time \<open>e\<close> on the library refuses the token, so validation fails with the
  library's error; at the time \<open>e + t\<close>, for every tolerance \<open>t\<close> that is not negative, the
  token is not accepted; when nothing else is wrong for the library the error is its expiry
  error; and the expiration error of \<^verbatim>\<open>validate\<close> itself can only be raised under a negative
  tolerance. The checks of \<^verbatim>\<open>validate\<close> alone, run on a token that passes the nine other
  checks and whose \<^verbatim>\<open>exp\<close> is not 0, do what the claim says: they fail with the expiration
  error exactly when the time exceeds \<open>e + t\<close>.
\<close>

theorem clock_tolerance_defeated:
  fixes compactVerify :: "string \<Rightarrow> key \<Rightarrow> 'j + (JWSHeaderParameters \<times> JWTPayload)"
  assumes decoded: "compactVerify idToken
             (if this_alg this = ''HS256'' then this_secret this else this_jwks this)
           = Inr (header, payload)"
    and exp: "exp payload = JNum e"
    and now: "now = d div 1000"
    and t: "t = this_clockTolerance this"
  shows "(e \<le> now
           \<longrightarrow> (\<exists>x. validate (jose_jwtVerify compactVerify d) this idToken opts d
                    = Inl (JoseError x)))
       \<and> (0 \<le> t \<and> now = e + t
           \<longrightarrow> (\<forall>q. validate (jose_jwtVerify compactVerify d) this idToken opts d \<noteq> Inr q))
       \<and> (e \<le> now
            \<and> jwt_claims_set \<lparr> issuer = this_issuer this, audience = this_audience this \<rparr> d
                 (payload\<lparr> exp := JUndefined \<rparr>) = (None :: 'j jose_error option)
           \<longrightarrow> validate (jose_jwtVerify compactVerify d) this idToken opts d
                 = Inl (JoseError JWTExpired))
       \<and> (\<forall>n x. validate (jose_jwtVerify compactVerify d) this idToken opts d
                    = Inl (ValidatorError (ExpExpired n x))
           \<longrightarrow> t < 0)
       \<and> (e \<noteq> 0
            \<and> check_algorithm this header = None
            \<and> check_issuer this payload = None
            \<and> check_subject payload = None
            \<and> check_audience this payload = None
            \<and> check_organization payload (organization opts) = None
            \<and> check_issued_at payload = None
            \<and> check_nonce payload (ValidateOptions.nonce opts) = None
            \<and> check_authorized_party this payload = None
            \<and> check_authentication_time this payload (maxAge opts) now = None
           \<longrightarrow> validate_claims this header payload opts d
                 = (if now > e + t then Inl (ValidatorError (ExpExpired now (e + t)))
                    else (Inr payload :: 'j jose_error validate_error + JWTPayload)))"
proof -
  let ?options = "\<lparr> issuer = this_issuer this, audience = this_audience this \<rparr>"
  let ?v = "validate (jose_jwtVerify compactVerify d) this idToken opts d"
  note vc = validate_jose_cases[where compactVerify = compactVerify and idToken = idToken
      and this = this and d = d and opts = opts, OF decoded]
  have 1: "e \<le> now \<longrightarrow> (\<exists>x. ?v = Inl (JoseError x))"
  proof
    assume "e \<le> now"
    then have "jwt_claims_set ?options d payload \<noteq> (None :: 'j jose_error option)"
      unfolding now by (rule jwt_claims_set_expired[OF exp])
    then obtain x :: "'j jose_error" where "jwt_claims_set ?options d payload = Some x"
      by auto
    then have "?v = Inl (JoseError x)" unfolding vc by simp
    then show "\<exists>x. ?v = Inl (JoseError x)" ..
  qed
  have 2: "0 \<le> t \<and> now = e + t \<longrightarrow> (\<forall>q. ?v \<noteq> Inr q)"
  proof (intro impI allI)
    fix q
    assume "0 \<le> t \<and> now = e + t"
    then have "e \<le> now" by simp
    with 1 obtain x where "?v = Inl (JoseError x)" by auto
    then show "?v \<noteq> Inr q" by simp
  qed
  have 3: "e \<le> now \<and> jwt_claims_set ?options d (payload\<lparr> exp := JUndefined \<rparr>)
        = (None :: 'j jose_error option) \<longrightarrow> ?v = Inl (JoseError JWTExpired)"
  proof
    assume a: "e \<le> now \<and> jwt_claims_set ?options d (payload\<lparr> exp := JUndefined \<rparr>)
        = (None :: 'j jose_error option)"
    from a have a1: "e \<le> d div 1000" unfolding now by simp
    from a have a2: "jwt_claims_set ?options d (payload\<lparr> exp := JUndefined \<rparr>)
        = (None :: 'j jose_error option)" by simp
    have "jwt_claims_set ?options d payload = (Some JWTExpired :: 'j jose_error option)"
      by (rule jwt_claims_set_only_expired[OF exp a1 a2])
    then show "?v = Inl (JoseError JWTExpired)" unfolding vc by simp
  qed
  have 4: "\<forall>n x. ?v = Inl (ValidatorError (ExpExpired n x)) \<longrightarrow> t < 0"
  proof (intro allI impI)
    fix n x
    assume a: "?v = Inl (ValidatorError (ExpExpired n x))"
    have acc: "jwt_claims_set ?options d payload = (None :: 'j jose_error option)"
    proof (cases "jwt_claims_set ?options d payload :: 'j jose_error option")
      case None
      then show ?thesis .
    next
      case (Some y)
      with a show ?thesis unfolding vc by simp
    qed
    with a have "validate_claims this header payload opts d
        = (Inl (ValidatorError (ExpExpired n x)) :: 'j jose_error validate_error + JWTPayload)"
      unfolding vc by simp
    then have "check_expiration this payload (d div 1000) = Some (ExpExpired n x)"
      by (rule validate_claims_ExpExpired)
    then have "d div 1000 > e + t"
      using exp t by (simp add: check_expiration_def Let_def split: if_splits)
    moreover have "d div 1000 < e"
      by (rule jwt_claims_set_accepts_unexpired[OF exp acc])
    ultimately show "t < 0" by simp
  qed
  have 5: "e \<noteq> 0
            \<and> check_algorithm this header = None
            \<and> check_issuer this payload = None
            \<and> check_subject payload = None
            \<and> check_audience this payload = None
            \<and> check_organization payload (organization opts) = None
            \<and> check_issued_at payload = None
            \<and> check_nonce payload (ValidateOptions.nonce opts) = None
            \<and> check_authorized_party this payload = None
            \<and> check_authentication_time this payload (maxAge opts) now = None
           \<longrightarrow> validate_claims this header payload opts d
                 = (if now > e + t then Inl (ValidatorError (ExpExpired now (e + t)))
                    else (Inr payload :: 'j jose_error validate_error + JWTPayload))"
    using exp t now
    by (simp add: validate_claims_def or_else_None or_else_Some check_expiration_def Let_def)
  show ?thesis
    by (rule conjI[OF 1 conjI[OF 2 conjI[OF 3 conjI[OF 4 5]]]])
qed

theorem clock_tolerance_defeated_witness:
  "validate (jose_jwtVerify (decoding sample_header sample_payload) 1700000060000)
      sample_validator ''token'' no_expectations 1700000060000
     = Inl (JoseError JWTExpired)
   \<and> this_clockTolerance sample_validator = 60
   \<and> exp sample_payload = JNum 1700000000
   \<and> validate_claims sample_validator sample_header sample_payload no_expectations
        1700000060000
     = (Inr sample_payload :: string jose_error validate_error + JWTPayload)"
proof -
  let ?secret = "if this_alg sample_validator = ''HS256'' then this_secret sample_validator
       else this_jwks sample_validator"
  have a: "decoding sample_header sample_payload ''token'' ?secret
      = Inr (sample_header, sample_payload)"
    by (simp add: decoding_def)
  have e: "exp sample_payload = JNum 1700000000"
    by (simp add: sample_payload_def)
  have n: "(1700000060 :: int) = 1700000060000 div 1000"
    by simp
  have t: "(60 :: int) = this_clockTolerance sample_validator"
    by (simp add: sample_defs)
  note th = clock_tolerance_defeated[where
      compactVerify = "decoding sample_header sample_payload" and this = sample_validator
      and idToken = "''token''" and header = sample_header and payload = sample_payload
      and opts = no_expectations, OF a e n t]
  have lib: "(1700000000 :: int) \<le> 1700000060
      \<and> jwt_claims_set \<lparr> issuer = this_issuer sample_validator,
             audience = this_audience sample_validator \<rparr> 1700000060000
           (sample_payload\<lparr> exp := JUndefined \<rparr>) = (None :: string jose_error option)"
    by (simp add: jose_defs sample_defs)
  have 1: "validate (jose_jwtVerify (decoding sample_header sample_payload) 1700000060000)
      sample_validator ''token'' no_expectations 1700000060000
     = Inl (JoseError JWTExpired)"
    by (rule mp[OF conjunct1[OF conjunct2[OF conjunct2[OF th]]] lib])
  have o: "(1700000000 :: int) \<noteq> 0
      \<and> check_algorithm sample_validator sample_header = None
      \<and> check_issuer sample_validator sample_payload = None
      \<and> check_subject sample_payload = None
      \<and> check_audience sample_validator sample_payload = None
      \<and> check_organization sample_payload (organization no_expectations) = None
      \<and> check_issued_at sample_payload = None
      \<and> check_nonce sample_payload (ValidateOptions.nonce no_expectations) = None
      \<and> check_authorized_party sample_validator sample_payload = None
      \<and> check_authentication_time sample_validator sample_payload (maxAge no_expectations)
           1700000060 = None"
    by (simp add: check_defs sample_defs)
  have "validate_claims sample_validator sample_header sample_payload no_expectations
        1700000060000
     = (if (1700000060 :: int) > 1700000000 + 60
        then Inl (ValidatorError (ExpExpired 1700000060 (1700000000 + 60)))
        else (Inr sample_payload :: string jose_error validate_error + JWTPayload))"
    by (rule mp[OF conjunct2[OF conjunct2[OF conjunct2[OF conjunct2[OF th]]]] o])
  then have 2: "validate_claims sample_validator sample_header sample_payload no_expectations
        1700000060000
     = (Inr sample_payload :: string jose_error validate_error + JWTPayload)"
    by simp
  show ?thesis
    by (rule conjI[OF 1 conjI[OF t[symmetric] conjI[OF e 2]]])
qed

subsection \<open>Time claims with the value zero\<close>

lemma validate_claims_exp_zero:
  assumes "exp payload = JNum 0"
  shows "validate_claims this header payload opts d \<noteq> Inr q"
proof -
  have "stage_results this header payload opts d ! 5 = Some ExpMissing"
    using assms by (simp add: stage_results_def check_expiration_def)
  moreover have "5 < length (stage_results this header payload opts d)"
    by (simp add: stage_results_def)
  ultimately show ?thesis
    unfolding validate_claims_run_checks run_checks_Inr by force
qed

lemma validate_claims_iat_zero:
  assumes "iat payload = JNum 0"
  shows "validate_claims this header payload opts d \<noteq> Inr q"
proof -
  have "stage_results this header payload opts d ! 6 = Some IatMissing"
    using assms by (simp add: stage_results_def check_issued_at_def)
  moreover have "6 < length (stage_results this header payload opts d)"
    by (simp add: stage_results_def)
  ultimately show ?thesis
    unfolding validate_claims_run_checks run_checks_Inr by force
qed

lemma check_expiration_falsy:
  "\<not> truthy v \<Longrightarrow> check_expiration this (payload\<lparr> exp := v \<rparr>) now = Some ExpMissing"
  by (simp add: check_expiration_def)

lemma check_issued_at_falsy:
  "\<not> truthy v \<Longrightarrow> check_issued_at (payload\<lparr> iat := v \<rparr>) = Some IatMissing"
  by (simp add: check_issued_at_def)

lemma checks_ignore_exp:
  "check_issuer this (payload\<lparr> exp := v \<rparr>) = check_issuer this payload"
  "check_subject (payload\<lparr> exp := v \<rparr>) = check_subject payload"
  "check_audience this (payload\<lparr> exp := v \<rparr>) = check_audience this payload"
  "check_organization (payload\<lparr> exp := v \<rparr>) expected = check_organization payload expected"
  by (simp_all add: check_issuer_def check_subject_def check_audience_def
      check_organization_def split: option.split)

lemma checks_ignore_iat:
  "check_issuer this (payload\<lparr> iat := v \<rparr>) = check_issuer this payload"
  "check_subject (payload\<lparr> iat := v \<rparr>) = check_subject payload"
  "check_audience this (payload\<lparr> iat := v \<rparr>) = check_audience this payload"
  "check_organization (payload\<lparr> iat := v \<rparr>) expected = check_organization payload expected"
  "check_expiration this (payload\<lparr> iat := v \<rparr>) now = check_expiration this payload now"
  by (simp_all add: check_issuer_def check_subject_def check_audience_def
      check_organization_def check_expiration_def split: option.split)

lemma validate_claims_exp_zero_absent:
  "validate_claims this header (payload\<lparr> exp := JNum 0 \<rparr>) opts d
     = validate_claims this header (payload\<lparr> exp := JUndefined \<rparr>) opts d"
  by (simp add: validate_claims_def checks_ignore_exp check_expiration_falsy or_else_Some)

lemma validate_claims_iat_zero_absent:
  "validate_claims this header (payload\<lparr> iat := JNum 0 \<rparr>) opts d
     = validate_claims this header (payload\<lparr> iat := JUndefined \<rparr>) opts d"
  by (simp add: validate_claims_def checks_ignore_iat check_issued_at_falsy or_else_Some)

lemma validate_claims_not_library_error:
  "validate_claims this header payload opts d \<noteq> Inl (JoseError x)"
  unfolding validate_claims_run_checks run_checks_Inl by simp

lemma jwt_claims_set_iat_zero_absent:
  "jwt_claims_set options d (payload\<lparr> iat := JNum 0 \<rparr>)
     = jwt_claims_set options d (payload\<lparr> iat := JUndefined \<rparr>)"
  by (simp add: jwt_claims_set_def Let_def)

lemma validate_jose_iat_zero_absent:
  assumes "cvZ idToken
             (if this_alg this = ''HS256'' then this_secret this else this_jwks this)
           = Inr (header, payload\<lparr> iat := JNum 0 \<rparr>)"
    and "cvU idToken
             (if this_alg this = ''HS256'' then this_secret this else this_jwks this)
           = Inr (header, payload\<lparr> iat := JUndefined \<rparr>)"
  shows "validate (jose_jwtVerify cvZ d) this idToken opts d
       = validate (jose_jwtVerify cvU d) this idToken opts d"
  unfolding validate_jose_cases[where compactVerify = cvZ and idToken = idToken
      and this = this, OF assms(1)]
    validate_jose_cases[where compactVerify = cvU and idToken = idToken
      and this = this, OF assms(2)]
    jwt_claims_set_iat_zero_absent validate_claims_iat_zero_absent
  by (rule refl)

text \<open>
  Against claim C9 as stated: a token whose \<^verbatim>\<open>exp\<close> is the number 0 is refused by the library
  call as expired, while the same token without \<^verbatim>\<open>exp\<close> passes the library and is refused by
  \<^verbatim>\<open>validate\<close> with the error that says the expiration time must be a number present in
  the token. The two are told apart, and the value 0 does not get that error.
\<close>

theorem zero_exp_is_expired_counterexample:
  "validate
      (jose_jwtVerify (decoding sample_header (sample_payload\<lparr> exp := JNum 0 \<rparr>))
        1700000000000)
      sample_validator ''token'' no_expectations 1700000000000
     = Inl (JoseError JWTExpired)
   \<and> validate
      (jose_jwtVerify (decoding sample_header (sample_payload\<lparr> exp := JUndefined \<rparr>))
        1700000000000)
      sample_validator ''token'' no_expectations 1700000000000
     = Inl (ValidatorError ExpMissing)
   \<and> message ExpMissing
     = ''Expiration Time (exp) claim must be a number present in the ID token''"
  by (simp add: validate_def validate_claims_def or_else_def check_defs jose_defs sample_defs)

text \<open>
  Claim C9, amended. A token whose \<^verbatim>\<open>exp\<close> or \<^verbatim>\<open>iat\<close> claim is the number 0 is never accepted.
  For \<^verbatim>\<open>iat\<close>: when the library call accepts the token and the six checks before issued-at
  pass, the error is the one that says the issued-at claim must be a number present in the
  token, and a token with \<^verbatim>\<open>iat\<close> 0 and the same token without \<^verbatim>\<open>iat\<close> give the same result
  of \<^verbatim>\<open>validate\<close>, since presence is tested by truthiness. For \<^verbatim>\<open>exp\<close>: whenever the clock
  is not before 1970 the library call refuses the token; with nothing else wrong for the
  library the error is its expiry error, which the same token without \<^verbatim>\<open>exp\<close> never gets;
  the error that says the expiration time must be a number present in the token is
  raised for the value 0 only under a clock before 1970.
\<close>

theorem zero_time_claims:
  fixes compactVerify :: "string \<Rightarrow> key \<Rightarrow> 'j + (JWSHeaderParameters \<times> JWTPayload)"
    and cvZ :: "string \<Rightarrow> key \<Rightarrow> 'j + (JWSHeaderParameters \<times> JWTPayload)"
    and cvU :: "string \<Rightarrow> key \<Rightarrow> 'j + (JWSHeaderParameters \<times> JWTPayload)"
  assumes decoded: "compactVerify idToken secret = Inr (header, payload)"
    and secret: "secret = (if this_alg this = ''HS256'' then this_secret this else this_jwks this)"
    and options: "options = \<lparr> issuer = this_issuer this, audience = this_audience this \<rparr>"
    and rs: "rs = stage_results this header payload opts d"
    and now: "now = d div 1000"
  shows "(exp payload = JNum 0 \<or> iat payload = JNum 0
           \<longrightarrow> (\<forall>q. validate (jose_jwtVerify compactVerify d) this idToken opts d \<noteq> Inr q))
       \<and> (iat payload = JNum 0
            \<and> jwt_claims_set options d payload = (None :: 'j jose_error option)
            \<and> (\<forall>r \<in> set (take 6 rs). r = None)
           \<longrightarrow> validate (jose_jwtVerify compactVerify d) this idToken opts d
                 = Inl (ValidatorError IatMissing))
       \<and> (cvZ idToken secret = Inr (header, payload\<lparr> iat := JNum 0 \<rparr>)
            \<and> cvU idToken secret = Inr (header, payload\<lparr> iat := JUndefined \<rparr>)
           \<longrightarrow> validate (jose_jwtVerify cvZ d) this idToken opts d
                 = validate (jose_jwtVerify cvU d) this idToken opts d)
       \<and> (exp payload = JNum 0 \<and> 0 \<le> now
           \<longrightarrow> (\<exists>x. validate (jose_jwtVerify compactVerify d) this idToken opts d
                      = Inl (JoseError x)))
       \<and> (exp payload = JNum 0 \<and> 0 \<le> now
            \<and> jwt_claims_set options d (payload\<lparr> exp := JUndefined \<rparr>)
                 = (None :: 'j jose_error option)
           \<longrightarrow> validate (jose_jwtVerify compactVerify d) this idToken opts d
                 = Inl (JoseError JWTExpired)
             \<and> (cvU idToken secret = Inr (header, payload\<lparr> exp := JUndefined \<rparr>)
                 \<longrightarrow> validate (jose_jwtVerify cvU d) this idToken opts d
                       \<noteq> Inl (JoseError JWTExpired)))
       \<and> (exp payload = JNum 0
            \<and> validate (jose_jwtVerify compactVerify d) this idToken opts d
                 = Inl (ValidatorError ExpMissing)
           \<longrightarrow> now < 0)
       \<and> message ExpMissing
            = ''Expiration Time (exp) claim must be a number present in the ID token''
       \<and> message IatMissing = ''Issued At (iat) claim must be a number present in the ID token''"
proof -
  let ?v = "validate (jose_jwtVerify compactVerify d) this idToken opts d"
  note dec = decoded[unfolded secret]
  note vc = validate_jose_cases[where compactVerify = compactVerify and idToken = idToken
      and this = this and d = d and opts = opts, OF dec]
  have 1: "exp payload = JNum 0 \<or> iat payload = JNum 0 \<longrightarrow> (\<forall>q. ?v \<noteq> Inr q)"
    unfolding vc
    by (auto simp add: validate_claims_exp_zero validate_claims_iat_zero split: option.split)
  have 2: "iat payload = JNum 0
            \<and> jwt_claims_set options d payload = (None :: 'j jose_error option)
            \<and> (\<forall>r \<in> set (take 6 rs). r = None)
           \<longrightarrow> ?v = Inl (ValidatorError IatMissing)"
    unfolding vc rs options
    by (simp add: stage_results_def validate_claims_def or_else_None or_else_Some
        check_issued_at_def)
  have 3: "cvZ idToken secret = Inr (header, payload\<lparr> iat := JNum 0 \<rparr>)
            \<and> cvU idToken secret = Inr (header, payload\<lparr> iat := JUndefined \<rparr>)
           \<longrightarrow> validate (jose_jwtVerify cvZ d) this idToken opts d
                 = validate (jose_jwtVerify cvU d) this idToken opts d"
  proof
    assume a: "cvZ idToken secret = Inr (header, payload\<lparr> iat := JNum 0 \<rparr>)
            \<and> cvU idToken secret = Inr (header, payload\<lparr> iat := JUndefined \<rparr>)"
    show "validate (jose_jwtVerify cvZ d) this idToken opts d
                 = validate (jose_jwtVerify cvU d) this idToken opts d"
      by (rule validate_jose_iat_zero_absent[where cvZ = cvZ and cvU = cvU
            and idToken = idToken and this = this,
            OF conjunct1[OF a, unfolded secret] conjunct2[OF a, unfolded secret]])
  qed
  have 4: "exp payload = JNum 0 \<and> 0 \<le> now \<longrightarrow> (\<exists>x. ?v = Inl (JoseError x))"
  proof
    assume a: "exp payload = JNum 0 \<and> 0 \<le> now"
    then have "jwt_claims_set \<lparr> issuer = this_issuer this, audience = this_audience this \<rparr>
           d payload \<noteq> (None :: 'j jose_error option)"
      unfolding now by (intro jwt_claims_set_expired[where e = 0]) simp_all
    then obtain x :: "'j jose_error" where
      "jwt_claims_set \<lparr> issuer = this_issuer this, audience = this_audience this \<rparr>
           d payload = Some x"
      by auto
    then have "?v = Inl (JoseError x)" unfolding vc by simp
    then show "\<exists>x. ?v = Inl (JoseError x)" ..
  qed
  have 5: "exp payload = JNum 0 \<and> 0 \<le> now
            \<and> jwt_claims_set options d (payload\<lparr> exp := JUndefined \<rparr>)
                 = (None :: 'j jose_error option)
           \<longrightarrow> ?v = Inl (JoseError JWTExpired)
             \<and> (cvU idToken secret = Inr (header, payload\<lparr> exp := JUndefined \<rparr>)
                 \<longrightarrow> validate (jose_jwtVerify cvU d) this idToken opts d
                       \<noteq> Inl (JoseError JWTExpired))"
  proof
    assume a: "exp payload = JNum 0 \<and> 0 \<le> now
            \<and> jwt_claims_set options d (payload\<lparr> exp := JUndefined \<rparr>)
                 = (None :: 'j jose_error option)"
    from a have a0: "exp payload = JNum 0" by simp
    from a have a1: "0 \<le> d div 1000" unfolding now by simp
    from a have a2: "jwt_claims_set
        \<lparr> issuer = this_issuer this, audience = this_audience this \<rparr> d
        (payload\<lparr> exp := JUndefined \<rparr>) = (None :: 'j jose_error option)"
      unfolding options by simp
    have "jwt_claims_set \<lparr> issuer = this_issuer this, audience = this_audience this \<rparr>
           d payload = (Some JWTExpired :: 'j jose_error option)"
      by (rule jwt_claims_set_only_expired[OF a0 a1 a2])
    then have A: "?v = Inl (JoseError JWTExpired)" unfolding vc by simp
    have B: "cvU idToken secret = Inr (header, payload\<lparr> exp := JUndefined \<rparr>)
                 \<longrightarrow> validate (jose_jwtVerify cvU d) this idToken opts d
                       \<noteq> Inl (JoseError JWTExpired)"
    proof
      assume u: "cvU idToken secret = Inr (header, payload\<lparr> exp := JUndefined \<rparr>)"
      note vu = validate_jose_cases[where compactVerify = cvU and idToken = idToken
          and this = this and d = d and opts = opts, OF u[unfolded secret]]
      show "validate (jose_jwtVerify cvU d) this idToken opts d
                       \<noteq> Inl (JoseError JWTExpired)"
        unfolding vu a2 by (simp add: validate_claims_not_library_error)
    qed
    show "?v = Inl (JoseError JWTExpired)
             \<and> (cvU idToken secret = Inr (header, payload\<lparr> exp := JUndefined \<rparr>)
                 \<longrightarrow> validate (jose_jwtVerify cvU d) this idToken opts d
                       \<noteq> Inl (JoseError JWTExpired))"
      by (rule conjI[OF A B])
  qed
  have 6: "exp payload = JNum 0 \<and> ?v = Inl (ValidatorError ExpMissing) \<longrightarrow> now < 0"
  proof
    assume a: "exp payload = JNum 0 \<and> ?v = Inl (ValidatorError ExpMissing)"
    show "now < 0"
    proof (rule ccontr)
      assume "\<not> now < 0"
      with a have "exp payload = JNum 0 \<and> 0 \<le> now" by simp
      with 4 obtain x where "?v = Inl (JoseError x)" by blast
      with a show False by simp
    qed
  qed
  have 7: "message ExpMissing
            = ''Expiration Time (exp) claim must be a number present in the ID token''"
    and 8: "message IatMissing
            = ''Issued At (iat) claim must be a number present in the ID token''"
    by simp_all
  show ?thesis
    by (rule conjI[OF 1 conjI[OF 2 conjI[OF 3 conjI[OF 4 conjI[OF 5 conjI[OF 6
          conjI[OF 7 8]]]]]]])
qed

theorem zero_time_claims_witness:
  "validate
      (jose_jwtVerify (decoding sample_header (sample_payload\<lparr> iat := JNum 0 \<rparr>))
        1699999999000)
      sample_validator ''token'' no_expectations 1699999999000
     = Inl (ValidatorError IatMissing)
   \<and> validate
      (jose_jwtVerify (decoding sample_header (sample_payload\<lparr> iat := JUndefined \<rparr>))
        1699999999000)
      sample_validator ''token'' no_expectations 1699999999000
     = Inl (ValidatorError IatMissing)
   \<and> validate
      (jose_jwtVerify (decoding sample_header (sample_payload\<lparr> exp := JNum 0 \<rparr>)) 60000)
      sample_validator ''token'' no_expectations 60000
     = Inl (JoseError JWTExpired)"
proof -
  let ?pz = "sample_payload\<lparr> iat := JNum 0 \<rparr>"
  let ?pu = "sample_payload\<lparr> iat := JUndefined \<rparr>"
  let ?pe = "sample_payload\<lparr> exp := JNum 0 \<rparr>"
  let ?secret = "if this_alg sample_validator = ''HS256'' then this_secret sample_validator
       else this_jwks sample_validator"
  let ?options = "\<lparr> issuer = this_issuer sample_validator,
       audience = this_audience sample_validator \<rparr>"
  have a: "decoding sample_header p ''token'' ?secret = Inr (sample_header, p)" for p
    by (simp add: decoding_def)
  note th = zero_time_claims[where compactVerify = "decoding sample_header ?pz"
      and cvZ = "decoding sample_header ?pz" and cvU = "decoding sample_header ?pu"
      and this = sample_validator and idToken = "''token''" and header = sample_header
      and payload = ?pz and opts = no_expectations and d = 1699999999000,
      OF a refl refl refl refl]
  have h2: "iat ?pz = JNum 0
      \<and> jwt_claims_set ?options 1699999999000 ?pz = (None :: string jose_error option)
      \<and> (\<forall>r \<in> set (take 6 (stage_results sample_validator sample_header ?pz
             no_expectations 1699999999000)). r = None)"
    by (simp add: stage_results_def check_defs jose_defs sample_defs)
  have 1: "validate (jose_jwtVerify (decoding sample_header ?pz) 1699999999000)
      sample_validator ''token'' no_expectations 1699999999000
     = Inl (ValidatorError IatMissing)"
    by (rule mp[OF conjunct1[OF conjunct2[OF th]] h2])
  have h3: "decoding sample_header ?pz ''token'' ?secret
        = Inr (sample_header, ?pz\<lparr> iat := JNum 0 \<rparr>)
      \<and> decoding sample_header ?pu ''token'' ?secret
        = Inr (sample_header, ?pz\<lparr> iat := JUndefined \<rparr>)"
    by (simp add: decoding_def)
  have "validate (jose_jwtVerify (decoding sample_header ?pz) 1699999999000)
      sample_validator ''token'' no_expectations 1699999999000
     = validate (jose_jwtVerify (decoding sample_header ?pu) 1699999999000)
      sample_validator ''token'' no_expectations 1699999999000"
    by (rule mp[OF conjunct1[OF conjunct2[OF conjunct2[OF th]]] h3])
  with 1 have 2: "validate (jose_jwtVerify (decoding sample_header ?pu) 1699999999000)
      sample_validator ''token'' no_expectations 1699999999000
     = Inl (ValidatorError IatMissing)"
    by simp
  note the = zero_time_claims[where compactVerify = "decoding sample_header ?pe"
      and this = sample_validator and idToken = "''token''" and header = sample_header
      and payload = ?pe and opts = no_expectations and d = 60000,
      OF a refl refl refl refl]
  have h5: "exp ?pe = JNum 0 \<and> (0 :: int) \<le> 60000 div 1000
      \<and> jwt_claims_set ?options 60000 (?pe\<lparr> exp := JUndefined \<rparr>)
          = (None :: string jose_error option)"
    by (simp add: jose_defs sample_defs)
  have 3: "validate (jose_jwtVerify (decoding sample_header ?pe) 60000)
      sample_validator ''token'' no_expectations 60000
     = Inl (JoseError JWTExpired)"
    by (rule conjunct1[OF mp[OF conjunct1[OF conjunct2[OF conjunct2[OF conjunct2[OF
          conjunct2[OF the]]]]] h5]])
  show ?thesis
    by (rule conjI[OF 1 conjI[OF 2 3]])
qed

subsection \<open>Authorized party\<close>

lemma stages_AuthorizedParty:
  assumes "i < length stages" and "stages ! i = AuthorizedParty"
  shows "i = 8"
proof -
  have d: "distinct stages" by (simp add: stages_def)
  have l: "8 < length stages" and s: "stages ! 8 = AuthorizedParty"
    by (simp_all add: stages_def)
  have "(stages ! i = stages ! 8) = (i = 8)"
    by (rule nth_eq_iff_index_eq[OF d assms(1) l])
  with assms(2) s show ?thesis by simp
qed

lemma take_all_None:
  "n \<le> length rs \<Longrightarrow> (\<forall>r \<in> set (take n rs). r = None) \<longleftrightarrow> (\<forall>j<n. rs ! j = None)"
  by (auto simp: all_set_conv_all_nth)

lemma checks_ignore_azp:
  "check_issuer this (payload\<lparr> azp := v \<rparr>) = check_issuer this payload"
  "check_subject (payload\<lparr> azp := v \<rparr>) = check_subject payload"
  "check_audience this (payload\<lparr> azp := v \<rparr>) = check_audience this payload"
  "check_organization (payload\<lparr> azp := v \<rparr>) expected = check_organization payload expected"
  "check_expiration this (payload\<lparr> azp := v \<rparr>) now = check_expiration this payload now"
  "check_issued_at (payload\<lparr> azp := v \<rparr>) = check_issued_at payload"
  "check_nonce (payload\<lparr> azp := v \<rparr>) expected' = check_nonce payload expected'"
  "check_authentication_time this (payload\<lparr> azp := v \<rparr>) expected'' now
     = check_authentication_time this payload expected'' now"
  by (simp_all add: check_issuer_def check_subject_def check_audience_def
      check_organization_def check_expiration_def check_issued_at_def check_nonce_def
      check_authentication_time_def split: option.split)

lemma check_authorized_party_not_required:
  "\<not> (isArray (aud payload) \<and> 1 < js_length (aud payload))
    \<Longrightarrow> check_authorized_party this (payload\<lparr> azp := v \<rparr>) = None"
  by (simp add: check_authorized_party_def)

lemma map_sum_or_else:
  "map_sum id f (or_else r rest) = or_else r (map_sum id f rest)"
  by (cases r) (simp_all add: or_else_def)

lemma validate_claims_ignores_azp:
  assumes "\<not> (isArray (aud payload) \<and> 1 < js_length (aud payload))"
  shows "validate_claims this header (payload\<lparr> azp := v \<rparr>) opts d
     = map_sum id (\<lambda>q. q\<lparr> azp := v \<rparr>) (validate_claims this header payload opts d)"
proof -
  have "check_authorized_party this (payload\<lparr> azp := v \<rparr>) = None"
    and "check_authorized_party this payload = None"
    using assms by (simp_all add: check_authorized_party_def)
  then show ?thesis
    by (simp add: validate_claims_def checks_ignore_azp map_sum_or_else Let_def)
qed

text \<open>
  Claim C6. The authorized-party check applies exactly when \<^verbatim>\<open>aud\<close> is an array with more
  than one entry. \<^verbatim>\<open>validate\<close> raises an authorized-party error if and only if \<^verbatim>\<open>aud\<close> is such
  an array, the steps before it pass, and \<^verbatim>\<open>azp\<close> is not a non-empty string equal to the
  client id: the error says \<^verbatim>\<open>azp\<close> is missing when it is absent or not a string, and that
  it mismatches otherwise. Such a token is never accepted. When \<^verbatim>\<open>aud\<close> is a string or an
  array of one element (or anything but an array of several entries), the block throws
  nothing whatever \<^verbatim>\<open>azp\<close> holds, and the outcome of validation is the same for every value
  of \<^verbatim>\<open>azp\<close>, a missing one included.
\<close>

theorem authorized_party_check:
  fixes jwtVerify :: "'j jwtVerify"
    and required matches :: bool
  assumes verified: "jwtVerify idToken
             (if this_alg this = ''HS256'' then this_secret this else this_jwks this)
             \<lparr> issuer = this_issuer this, audience = this_audience this \<rparr>
           = Inr (header, payload)"
    and rs: "rs = stage_results this header payload opts d"
  defines "required \<equiv> isArray (aud payload) \<and> 1 < js_length (aud payload)"
    and "matches \<equiv> truthy (azp payload) \<and> typeof (azp payload) = ''string''
           \<and> azp payload = JStr (this_audience this)"
  shows "((\<exists>e. validate jwtVerify this idToken opts d = Inl (ValidatorError e)
              \<and> stage_of e = AuthorizedParty)
            \<longleftrightarrow> required \<and> \<not> matches \<and> (\<forall>r \<in> set (take 8 rs). r = None))
       \<and> (required \<and> \<not> matches \<and> (\<forall>r \<in> set (take 8 rs). r = None)
            \<longrightarrow> validate jwtVerify this idToken opts d
                = Inl (ValidatorError
                    (if \<not> truthy (azp payload) \<or> typeof (azp payload) \<noteq> ''string''
                     then AzpMissing
                     else AzpMismatch (this_audience this) (azp payload))))
       \<and> (required \<and> \<not> matches \<longrightarrow> (\<forall>q. validate jwtVerify this idToken opts d \<noteq> Inr q))
       \<and> (\<not> required \<longrightarrow>
            check_authorized_party this (payload\<lparr> azp := v \<rparr>) = None
            \<and> validate_claims this header (payload\<lparr> azp := v \<rparr>) opts d
                = (map_sum id (\<lambda>q. q\<lparr> azp := v \<rparr>)
                    (validate_claims this header payload opts d)
                   :: 'j validate_error + JWTPayload))
       \<and> ((\<exists>x y zs. aud payload = JArr (x # y # zs)) \<longrightarrow> required)
       \<and> ((\<exists>s. aud payload = JStr s) \<or> (\<exists>x. aud payload = JArr [x]) \<longrightarrow> \<not> required)"
proof -
  let ?e = "if \<not> truthy (azp payload) \<or> typeof (azp payload) \<noteq> ''string''
            then AzpMissing else AzpMismatch (this_audience this) (azp payload)"
  have v: "validate jwtVerify this idToken opts d = run_checks rs payload"
    using verified by (simp add: validate_def validate_claims_run_checks rs)
  have len: "length rs = 10" and len': "length stages = 10"
    and rs8: "rs ! 8 = check_authorized_party this payload"
    by (simp_all add: rs stage_results_def stages_def)
  have take8: "(\<forall>r \<in> set (take 8 rs). r = None) \<longleftrightarrow> (\<forall>j<8. rs ! j = None)"
    by (rule take_all_None) (simp add: len)
  have cap: "check_authorized_party this payload
      = (if required \<and> \<not> matches then Some ?e else None)"
    by (auto simp: check_authorized_party_def required_def matches_def)
  have stage_e: "stage_of ?e = AuthorizedParty" by simp
  have fwd: "required \<and> \<not> matches \<and> (\<forall>r \<in> set (take 8 rs). r = None)"
    if "validate jwtVerify this idToken opts d = Inl (ValidatorError e)"
      and "stage_of e = AuthorizedParty" for e
  proof -
    from that(1) obtain i e' where i: "i < length rs" "rs ! i = Some e'"
      "\<forall>j<i. rs ! j = None" "ValidatorError e = (ValidatorError e' :: 'j validate_error)"
      unfolding v run_checks_Inl by blast
    from i(4) have e: "e' = e" by simp
    have "stage_of e' = stages ! i"
      by (rule stage_results_stage[OF i(1)[unfolded rs] i(2)[unfolded rs]])
    with that(2) have si: "stages ! i = AuthorizedParty" by (simp add: e)
    have "i < length stages" using i(1) by (simp add: len len')
    then have i8: "i = 8" using si by (rule stages_AuthorizedParty)
    from i(2) have "check_authorized_party this payload = Some e"
      unfolding i8 rs8 e .
    then have "required \<and> \<not> matches" unfolding cap by (simp split: if_splits)
    moreover from i(3) have "\<forall>r \<in> set (take 8 rs). r = None"
      unfolding i8 take8 .
    ultimately show ?thesis by simp
  qed
  have bwd: "validate jwtVerify this idToken opts d = Inl (ValidatorError ?e)"
    if "required \<and> \<not> matches \<and> (\<forall>r \<in> set (take 8 rs). r = None)"
  proof -
    from that have "rs ! 8 = Some ?e" unfolding rs8 cap by simp
    moreover from that have "\<forall>j<8. rs ! j = None" unfolding take8 by simp
    moreover have "8 < length rs" by (simp add: len)
    ultimately have "\<exists>i e. i < length rs \<and> rs ! i = Some e \<and> (\<forall>j<i. rs ! j = None)
        \<and> (ValidatorError ?e :: 'j validate_error) = ValidatorError e"
      by (intro exI[of _ 8] exI[of _ ?e] conjI refl)
    then show ?thesis unfolding v run_checks_Inl .
  qed
  have rej: "validate jwtVerify this idToken opts d \<noteq> Inr q" if "required \<and> \<not> matches" for q
  proof -
    from that have "rs ! 8 \<noteq> None" unfolding rs8 cap by simp
    moreover have "8 < length rs" by (simp add: len)
    ultimately show ?thesis unfolding v run_checks_Inr by auto
  qed
  have 1: "(\<exists>e. validate jwtVerify this idToken opts d = Inl (ValidatorError e)
              \<and> stage_of e = AuthorizedParty)
            \<longleftrightarrow> required \<and> \<not> matches \<and> (\<forall>r \<in> set (take 8 rs). r = None)"
  proof
    assume "\<exists>e. validate jwtVerify this idToken opts d = Inl (ValidatorError e)
              \<and> stage_of e = AuthorizedParty"
    then obtain e where "validate jwtVerify this idToken opts d = Inl (ValidatorError e)"
      and "stage_of e = AuthorizedParty" by (elim exE conjE)
    then show "required \<and> \<not> matches \<and> (\<forall>r \<in> set (take 8 rs). r = None)"
      by (rule fwd)
  next
    assume "required \<and> \<not> matches \<and> (\<forall>r \<in> set (take 8 rs). r = None)"
    from bwd[OF this] stage_e
    show "\<exists>e. validate jwtVerify this idToken opts d = Inl (ValidatorError e)
              \<and> stage_of e = AuthorizedParty"
      by (intro exI[of _ ?e] conjI)
  qed
  have 2: "required \<and> \<not> matches \<and> (\<forall>r \<in> set (take 8 rs). r = None)
            \<longrightarrow> validate jwtVerify this idToken opts d = Inl (ValidatorError ?e)"
    using bwd by (intro impI)
  have 3: "required \<and> \<not> matches \<longrightarrow> (\<forall>q. validate jwtVerify this idToken opts d \<noteq> Inr q)"
    using rej by (intro impI allI)
  have 4: "\<not> required \<longrightarrow>
            check_authorized_party this (payload\<lparr> azp := v \<rparr>) = None
            \<and> validate_claims this header (payload\<lparr> azp := v \<rparr>) opts d
                = (map_sum id (\<lambda>q. q\<lparr> azp := v \<rparr>)
                    (validate_claims this header payload opts d)
                   :: 'j validate_error + JWTPayload)"
    unfolding required_def
  proof (intro impI conjI)
    assume a: "\<not> (isArray (aud payload) \<and> 1 < js_length (aud payload))"
    show "check_authorized_party this (payload\<lparr> azp := v \<rparr>) = None"
      by (rule check_authorized_party_not_required[OF a])
    show "validate_claims this header (payload\<lparr> azp := v \<rparr>) opts d
                = (map_sum id (\<lambda>q. q\<lparr> azp := v \<rparr>)
                    (validate_claims this header payload opts d)
                   :: 'j validate_error + JWTPayload)"
      by (rule validate_claims_ignores_azp[OF a])
  qed
  have 5: "(\<exists>x y zs. aud payload = JArr (x # y # zs)) \<longrightarrow> required"
    and 6: "(\<exists>s. aud payload = JStr s) \<or> (\<exists>x. aud payload = JArr [x]) \<longrightarrow> \<not> required"
    by (auto simp: required_def)
  show ?thesis
    by (rule conjI[OF 1 conjI[OF 2 conjI[OF 3 conjI[OF 4 conjI[OF 5 6]]]]])
qed

theorem authorized_party_check_witness:
  "validate
      (accepting sample_header
        (sample_payload\<lparr> aud := JArr [JStr ''client-a'', JStr ''client-b''] \<rparr>))
      sample_validator ''token'' no_expectations 1700000000000
     = Inl (ValidatorError AzpMissing)
   \<and> validate_claims sample_validator sample_header
        (sample_payload\<lparr> aud := JArr [JStr ''client-a''], azp := JStr ''someone-else'' \<rparr>)
        no_expectations 1700000000000
     = (Inr (sample_payload\<lparr> aud := JArr [JStr ''client-a''], azp := JStr ''someone-else'' \<rparr>)
         :: string validate_error + JWTPayload)
   \<and> validate_claims sample_validator sample_header
        (sample_payload\<lparr> aud := JArr [JStr ''client-a''], azp := JUndefined \<rparr>)
        no_expectations 1700000000000
     = (Inr (sample_payload\<lparr> aud := JArr [JStr ''client-a''], azp := JUndefined \<rparr>)
         :: string validate_error + JWTPayload)"
proof -
  let ?pm = "sample_payload\<lparr> aud := JArr [JStr ''client-a'', JStr ''client-b''] \<rparr>"
  let ?p1 = "sample_payload\<lparr> aud := JArr [JStr ''client-a''], azp := JStr ''someone-else'' \<rparr>"
  have a: "accepting sample_header p ''token''
      (if this_alg sample_validator = ''HS256'' then this_secret sample_validator
       else this_jwks sample_validator)
      \<lparr> issuer = this_issuer sample_validator, audience = this_audience sample_validator \<rparr>
     = Inr (sample_header, p)" for p
    by (simp add: accepting_def)
  note thA = authorized_party_check[where jwtVerify = "accepting sample_header ?pm"
      and this = sample_validator and idToken = "''token''" and header = sample_header
      and payload = ?pm and opts = no_expectations and d = 1700000000000, OF a refl]
  note th1 = authorized_party_check[where jwtVerify = "accepting sample_header ?p1"
      and this = sample_validator and idToken = "''token''" and header = sample_header
      and payload = ?p1 and opts = no_expectations and d = 1700000000000
      and v = JUndefined, OF a refl]
  have cm: "(isArray (aud ?pm) \<and> 1 < js_length (aud ?pm))
      \<and> \<not> (truthy (azp ?pm) \<and> typeof (azp ?pm) = ''string''
            \<and> azp ?pm = JStr (this_audience sample_validator))
      \<and> (\<forall>r \<in> set (take 8 (stage_results sample_validator sample_header ?pm
            no_expectations 1700000000000)). r = None)"
    by (simp add: stage_results_def check_defs sample_defs)
  have em: "(if \<not> truthy (azp ?pm) \<or> typeof (azp ?pm) \<noteq> ''string'' then AzpMissing
      else AzpMismatch (this_audience sample_validator) (azp ?pm)) = AzpMissing"
    by (simp add: sample_defs)
  have 1: "validate (accepting sample_header ?pm) sample_validator ''token'' no_expectations
      1700000000000 = Inl (ValidatorError AzpMissing)"
    using mp[OF conjunct1[OF conjunct2[OF thA]] cm] unfolding em .
  have 2: "validate_claims sample_validator sample_header ?p1 no_expectations 1700000000000
      = (Inr ?p1 :: string validate_error + JWTPayload)"
    by (simp add: validate_claims_def or_else_def check_defs sample_defs)
  have c1: "\<not> (isArray (aud ?p1) \<and> 1 < js_length (aud ?p1))"
    by (simp add: sample_defs)
  have 3: "validate_claims sample_validator sample_header (?p1\<lparr> azp := JUndefined \<rparr>)
        no_expectations 1700000000000
      = (map_sum id (\<lambda>q. q\<lparr> azp := JUndefined \<rparr>)
          (validate_claims sample_validator sample_header ?p1 no_expectations 1700000000000)
         :: string validate_error + JWTPayload)"
    by (rule conjunct2[OF mp[OF conjunct1[OF conjunct2[OF conjunct2[OF conjunct2[OF th1]]]] c1]])
  have 4: "validate_claims sample_validator sample_header
        (sample_payload\<lparr> aud := JArr [JStr ''client-a''], azp := JUndefined \<rparr>)
        no_expectations 1700000000000
     = (Inr (sample_payload\<lparr> aud := JArr [JStr ''client-a''], azp := JUndefined \<rparr>)
         :: string validate_error + JWTPayload)"
    using 3 unfolding 2 by simp
  show ?thesis
    by (rule conjI[OF 1 conjI[OF 2 4]])
qed
section \<open>Properties of request execution\<close>

subsection \<open>The URL\<close>

lemma set_join: "set (join sep xs) \<subseteq> set sep \<union> (\<Union>x \<in> set xs. set x)"
  by (induction sep xs rule: join.induct) auto

lemma join_eq_Nil: "join sep xs = [] \<Longrightarrow> \<forall>x \<in> set xs. x = []"
  by (induction sep xs rule: join.induct) auto

lemma hex_digit_not_question: "n < 16 \<Longrightarrow> hex_digit n \<noteq> CHR ''?''"
proof -
  assume "n < 16"
  then have "hex_digit n \<in> set ''0123456789ABCDEF''"
    unfolding hex_digit_def by (intro nth_mem) simp
  then show ?thesis by auto
qed

lemma of_char_div_16: "(of_char c :: nat) div 16 < 16"
proof -
  have "(of_char c :: nat) < 256" by (cases c) simp
  then show ?thesis by arith
qed

lemma encode_byte_no_question: "CHR ''?'' \<notin> set (encode_byte c)"
proof (cases "uri_unreserved c")
  case True
  then have "c \<noteq> CHR ''?''" by (auto simp: uri_unreserved_def)
  with True show ?thesis by (simp add: encode_byte_def)
next
  case False
  have "hex_digit (of_char c div 16) \<noteq> CHR ''?''"
    by (rule hex_digit_not_question[OF of_char_div_16])
  moreover have "hex_digit (of_char c mod 16) \<noteq> CHR ''?''"
    by (rule hex_digit_not_question) simp
  ultimately show ?thesis using False by (auto simp: encode_byte_def)
qed

lemma encodeURIComponent_no_question: "CHR ''?'' \<notin> set (encodeURIComponent s)"
  by (auto simp: encodeURIComponent_def encode_byte_no_question)

lemma querystringSingleKey_no_question: "CHR ''?'' \<notin> set (querystringSingleKey key v)"
proof (cases v)
  case (JArr xs)
  have "set (join (''&'' @ encodeURIComponent key @ ''='')
              (map (\<lambda>singleValue. encodeURIComponent (js_String singleValue)) xs))
        \<subseteq> set (''&'' @ encodeURIComponent key @ ''='')
            \<union> (\<Union>x \<in> set (map (\<lambda>singleValue. encodeURIComponent (js_String singleValue)) xs).
                 set x)"
    by (rule set_join)
  then show ?thesis
    using JArr encodeURIComponent_no_question
    by (auto simp: querystringSingleKey_def Let_def)
qed (auto simp: querystringSingleKey_def encodeURIComponent_no_question)

lemma querystringSingleKey_not_Nil: "querystringSingleKey key v \<noteq> []"
  by (cases v) (auto simp: querystringSingleKey_def Let_def)

lemma querystring_no_question: "CHR ''?'' \<notin> set (querystring q)"
proof -
  have "set (querystring q)
      \<subseteq> set ''&'' \<union> (\<Union>x \<in> set (filter (\<lambda>part. length part > 0)
            (map (\<lambda>key. querystringSingleKey key (property q key)) (map fst q))). set x)"
    unfolding querystring_def by (rule set_join)
  then show ?thesis
    using querystringSingleKey_no_question by auto
qed

lemma querystring_not_Nil:
  assumes "q \<noteq> []"
  shows "querystring q \<noteq> []"
proof
  assume "querystring q = []"
  then have "\<forall>x \<in> set (filter (\<lambda>part. length part > 0)
        (map (\<lambda>key. querystringSingleKey key (property q key)) (map fst q))). x = []"
    unfolding querystring_def by (rule join_eq_Nil)
  then have "filter (\<lambda>part. length part > 0)
        (map (\<lambda>key. querystringSingleKey key (property q key)) (map fst q)) = []"
    by (auto simp: filter_empty_conv)
  moreover have "filter (\<lambda>part. length part > 0)
        (map (\<lambda>key. querystringSingleKey key (property q key)) (map fst q))
      = map (\<lambda>key. querystringSingleKey key (property q key)) (map fst q)"
    by (rule filter_True) (auto simp: querystringSingleKey_not_Nil)
  ultimately show False using assms by simp
qed

lemma build_url_unfold:
  "build_url this context =
     baseUrl (configuration this) @ path context
       @ (case query context of
            None \<Rightarrow> []
          | Some q \<Rightarrow> if q = [] then [] else ''?'' @ querystring q)"
  by (simp add: build_url_def Let_def split: option.split)

text \<open>
  Claim C7. When the query map of a request description is absent or empty, the built URL
  is exactly the base URL followed by the path. When it has at least one key, the URL is
  that followed by \<^verbatim>\<open>?\<close> and the query string, which is not empty; so a \<^verbatim>\<open>?\<close> with a query
  string is appended if and only if the map has a key. The builder never leaves a
  question mark at the end: a built URL ends in \<^verbatim>\<open>?\<close> only if there is no query and the
  base URL with the path already ends in one. The URL that \<^verbatim>\<open>createFetchParams\<close> returns is
  this URL.
\<close>

theorem url_without_dangling_question_mark:
  "(query ctx = None \<or> query ctx = Some []
      \<longrightarrow> build_url this ctx = baseUrl (configuration this) @ path ctx)
   \<and> (\<forall>q. query ctx = Some q \<and> q \<noteq> []
      \<longrightarrow> build_url this ctx
            = baseUrl (configuration this) @ path ctx @ ''?'' @ querystring q
          \<and> querystring q \<noteq> [])
   \<and> ((\<exists>qs. build_url this ctx = baseUrl (configuration this) @ path ctx @ ''?'' @ qs)
        \<longleftrightarrow> (\<exists>q. query ctx = Some q \<and> q \<noteq> []))
   \<and> ((\<exists>front. build_url this ctx = front @ ''?'')
        \<longrightarrow> (query ctx = None \<or> query ctx = Some [])
          \<and> (\<exists>front. baseUrl (configuration this) @ path ctx = front @ ''?''))
   \<and> (\<forall>params e'. createFetchParams this ctx initOverrides e = (Inr params, e')
        \<longrightarrow> url params = build_url this ctx)"
proof -
  let ?base = "baseUrl (configuration this) @ path ctx"
  have a: "query ctx = None \<or> query ctx = Some [] \<longrightarrow> build_url this ctx = ?base"
    by (auto simp: build_url_unfold)
  have b: "\<forall>q. query ctx = Some q \<and> q \<noteq> []
      \<longrightarrow> build_url this ctx = ?base @ ''?'' @ querystring q \<and> querystring q \<noteq> []"
    by (auto simp: build_url_unfold querystring_not_Nil)
  have c: "(\<exists>qs. build_url this ctx = ?base @ ''?'' @ qs)
        \<longleftrightarrow> (\<exists>q. query ctx = Some q \<and> q \<noteq> [])"
  proof (cases "query ctx")
    case None
    then show ?thesis by (simp add: build_url_unfold)
  next
    case (Some q)
    then show ?thesis by (cases "q = []") (simp_all add: build_url_unfold)
  qed
  have d: "(\<exists>front. build_url this ctx = front @ ''?'')
        \<longrightarrow> (query ctx = None \<or> query ctx = Some [])
          \<and> (\<exists>front. ?base = front @ ''?'')"
  proof
    assume "\<exists>front. build_url this ctx = front @ ''?''"
    then obtain front where front: "build_url this ctx = front @ ''?''" ..
    have empty: "query ctx = None \<or> query ctx = Some []"
    proof (rule ccontr)
      assume "\<not> (query ctx = None \<or> query ctx = Some [])"
      then obtain q where q: "query ctx = Some q" "q \<noteq> []" by auto
      with b have u: "build_url this ctx = (?base @ ''?'') @ querystring q"
        and n: "querystring q \<noteq> []" by simp_all
      from n have "last (build_url this ctx) = last (querystring q)"
        unfolding u by (rule last_appendR)
      moreover have "last (build_url this ctx) = CHR ''?''"
        unfolding front by simp
      ultimately have "CHR ''?'' \<in> set (querystring q)"
        using n last_in_set[of "querystring q"] by simp
      then show False using querystring_no_question by simp
    qed
    with a front have "?base = front @ ''?''" by simp
    with empty show "(query ctx = None \<or> query ctx = Some [])
          \<and> (\<exists>front. ?base = front @ ''?'')" by auto
  qed
  have e: "\<forall>params e'. createFetchParams this ctx initOverrides e = (Inr params, e')
        \<longrightarrow> url params = build_url this ctx"
    by (auto simp: createFetchParams_def Let_def split: prod.splits sum.splits)
  show ?thesis
    using a b c d e unfolding append_assoc by (intro conjI)
qed

theorem url_without_dangling_question_mark_witness:
  "build_url (sample_api (answering 200) None) sample_request
     = ''https://tenant.example.com/api/v2/logs/5''
   \<and> build_url (sample_api (answering 200) None) (sample_request\<lparr> query := Some [] \<rparr>)
     = ''https://tenant.example.com/api/v2/logs/5''
   \<and> build_url (sample_api (answering 200) None)
       (sample_request\<lparr> query := Some [(''page'', JNum 2), (''q'', JStr ''a b?'')] \<rparr>)
     = ''https://tenant.example.com/api/v2/logs/5?page=2&q=a%20b%3F''"
proof -
  let ?api = "sample_api (answering 200) None"
  have base: "baseUrl (configuration ?api) @ path (sample_request\<lparr> query := q \<rparr>)
      = ''https://tenant.example.com/api/v2/logs/5''" for q
    by (simp add: sample_api_def sample_request_def)
  have 1: "build_url ?api sample_request = ''https://tenant.example.com/api/v2/logs/5''"
    using url_without_dangling_question_mark[where this = ?api and ctx = sample_request]
    by (simp add: sample_api_def sample_request_def)
  have 2: "build_url ?api (sample_request\<lparr> query := Some [] \<rparr>)
      = ''https://tenant.example.com/api/v2/logs/5''"
    using url_without_dangling_question_mark[where this = ?api
        and ctx = "sample_request\<lparr> query := Some [] \<rparr>"] base[of "Some []"]
    by simp
  have qs: "querystring [(''page'', JNum 2), (''q'', JStr ''a b?'')] = ''page=2&q=a%20b%3F''"
    by (simp add: querystring_def querystringSingleKey_def property_def encodeURIComponent_def
        encode_byte_def uri_unreserved_def hex_digit_def string_of_int_def)
  have 3: "build_url ?api
       (sample_request\<lparr> query := Some [(''page'', JNum 2), (''q'', JStr ''a b?'')] \<rparr>)
      = ''https://tenant.example.com/api/v2/logs/5?page=2&q=a%20b%3F''"
    using url_without_dangling_question_mark[where this = ?api
        and ctx = "sample_request\<lparr> query := Some [(''page'', JNum 2), (''q'', JStr ''a b?'')] \<rparr>"]
      base[of "Some [(''page'', JNum 2), (''q'', JStr ''a b?'')]"]
    by (simp add: qs)
  show ?thesis
    by (rule conjI[OF 1 conjI[OF 2 3]])
qed

lemmas runtime_sample_defs =
  sample_api_def sample_request_def fresh_def rejecting_def answering_def
  recording_parser_def retry_again_def retries_off_def no_options_def

subsection \<open>Status codes and the error parser\<close>

text \<open>
  Claim C2. Once the request is built and the exchange has completed with a response,
  \<^verbatim>\<open>request\<close> returns that response if and only if its status is at least 200 and less
  than 300, and then the error parser is not run (the environment is the one the exchange
  left). For every other status the error parser is run on that response, in the
  environment the exchange left, and what it produces is raised.
\<close>

theorem request_status_decides:
  assumes params: "createFetchParams this ctx initOverrides e = (Inr params, e1)"
    and fetched: "fetch retry_fn this (url params) (init params) e1 = (Inr response, e2)"
  shows "request retry_fn this ctx initOverrides e
           = (if 200 \<le> status response \<and> status response < 300 then (Inr response, e2)
              else (Inl (fst (this_parseError this response e2)),
                    snd (this_parseError this response e2)))
       \<and> ((\<exists>r e'. request retry_fn this ctx initOverrides e = (Inr r, e'))
            \<longleftrightarrow> 200 \<le> status response \<and> status response < 300)
       \<and> (200 \<le> status response \<and> status response < 300
            \<longrightarrow> request retry_fn this ctx initOverrides e = (Inr response, e2))
       \<and> (\<not> (200 \<le> status response \<and> status response < 300)
            \<longrightarrow> request retry_fn this ctx initOverrides e
                = (Inl (fst (this_parseError this response e2)),
                   snd (this_parseError this response e2)))"
proof -
  have r: "request retry_fn this ctx initOverrides e
           = (if 200 \<le> status response \<and> status response < 300 then (Inr response, e2)
              else (Inl (fst (this_parseError this response e2)),
                    snd (this_parseError this response e2)))"
    using params fetched by (simp add: request_def split: prod.split)
  show ?thesis
    unfolding r by simp
qed

theorem request_status_decides_witness:
  "request retry_again (sample_api (answering 200) None) sample_request NoOverride fresh
     = (Inr \<lparr> status = 200, statusText = [], content = [] \<rparr>, \<lparr> calls = 1, parsed = [] \<rparr>)
   \<and> request retry_again (sample_api (answering 500) None) sample_request NoOverride fresh
     = (Inl (OtherError ''status 500''),
        \<lparr> calls = 1, parsed = [\<lparr> status = 500, statusText = [], content = [] \<rparr>] \<rparr>)
   \<and> request retry_again (sample_api (answering 199) None) sample_request NoOverride fresh
     = (Inl (OtherError ''status 199''),
        \<lparr> calls = 1, parsed = [\<lparr> status = 199, statusText = [], content = [] \<rparr>] \<rparr>)
   \<and> request retry_again (sample_api (answering 299) None) sample_request NoOverride fresh
     = (Inr \<lparr> status = 299, statusText = [], content = [] \<rparr>, \<lparr> calls = 1, parsed = [] \<rparr>)
   \<and> request retry_again (sample_api (answering 300) None) sample_request NoOverride fresh
     = (Inl (OtherError ''status 300''),
        \<lparr> calls = 1, parsed = [\<lparr> status = 300, statusText = [], content = [] \<rparr>] \<rparr>)"
proof -
  have p: "\<exists>params. createFetchParams (sample_api (answering code) None) sample_request
        NoOverride fresh = (Inr params, fresh)
      \<and> fetch retry_again (sample_api (answering code) None) (url params) (init params) fresh
          = (Inr \<lparr> status = code, statusText = [], content = [] \<rparr>, \<lparr> calls = 1, parsed = [] \<rparr>)"
    for code
    by (simp add: createFetchParams_def fetch_def exchange_def retry_enabled_def
        fetchWithTimeout_def spread_retry_def runtime_sample_defs Let_def)
  have w: "request retry_again (sample_api (answering code) None) sample_request NoOverride fresh
      = (if 200 \<le> code \<and> code < 300
         then (Inr \<lparr> status = code, statusText = [], content = [] \<rparr>, \<lparr> calls = 1, parsed = [] \<rparr>)
         else (Inl (OtherError (''status '' @ string_of_int code)),
               \<lparr> calls = 1, parsed = [\<lparr> status = code, statusText = [], content = [] \<rparr>] \<rparr>))"
    for code
  proof -
    from p[of code] obtain params where
      1: "createFetchParams (sample_api (answering code) None) sample_request NoOverride fresh
          = (Inr params, fresh)"
      and 2: "fetch retry_again (sample_api (answering code) None) (url params) (init params)
          fresh = (Inr \<lparr> status = code, statusText = [], content = [] \<rparr>,
                   \<lparr> calls = 1, parsed = [] \<rparr>)"
      by (elim exE conjE)
    from request_status_decides[OF 1 2]
    show ?thesis
      by (simp add: sample_api_def recording_parser_def)
  qed
  show ?thesis
    using w[of 200] w[of 500] w[of 199] w[of 299] w[of 300]
    by (simp add: string_of_int_def)
qed

subsection \<open>Retries\<close>

lemma fetchWithTimeout_once:
  "fetchWithTimeout this u i e =
     (case fst (this_fetchApi this u ([''signal'' \<mapsto> AbortSignal] ++ i) e) of
        Inl err \<Rightarrow> Inl (if instanceof_AbortError err then TimeoutError else err)
      | Inr response \<Rightarrow> Inr response,
      snd (this_fetchApi this u ([''signal'' \<mapsto> AbortSignal] ++ i) e))"
  by (simp add: fetchWithTimeout_def split: prod.split sum.split)

lemma fetch_without_middleware:
  assumes "this_middleware this = []"
  shows "fetch retry_fn this u i e =
     (case exchange retry_fn this \<lparr> url = u, init = i \<rparr> e of
        (Inr response, e2) \<Rightarrow> (Inr response, e2)
      | (Inl err, e2) \<Rightarrow>
          (if instanceof_Error err then (Inl (FetchError err interceptors_message), e2)
           else (Inl err, e2)))"
  using assms by (simp add: fetch_def split: prod.split sum.split)

text \<open>
  Claim C8. When the retry setting has \<^verbatim>\<open>enabled\<close> explicitly false, the exchange is one
  timeout-guarded call and nothing else: the retry function is not consulted, the
  environment afterwards is the one a single call of the transport leaves, and a rejection
  of the transport is the outcome of the exchange (an abort turned into a timeout error).
  Without middleware the caller of \<^verbatim>\<open>fetch\<close> receives that error, wrapped, after this single
  call. In every other configuration (no retry setting, no \<^verbatim>\<open>enabled\<close> flag, or the flag
  true) the exchange is the retry function applied to the timeout-guarded call and to the
  spread retry setting, which is the empty object when there is no setting.
\<close>

theorem retries_disabled_single_attempt:
  fixes retry_fn :: "'e retry_function"
  shows
  "(\<forall>c. retry (configuration this) = Some c \<and> enabled c = Some False
      \<longrightarrow> exchange retry_fn this fetchParams e
            = fetchWithTimeout this (url fetchParams) (init fetchParams) e
        \<and> snd (exchange retry_fn this fetchParams e)
            = snd (this_fetchApi this (url fetchParams)
                    ([''signal'' \<mapsto> AbortSignal] ++ init fetchParams) e)
        \<and> (\<forall>err. fst (this_fetchApi this (url fetchParams)
                    ([''signal'' \<mapsto> AbortSignal] ++ init fetchParams) e) = Inl err
             \<longrightarrow> fst (exchange retry_fn this fetchParams e)
                  = Inl (if instanceof_AbortError err then TimeoutError else err)))
   \<and> (\<not> (\<exists>c. retry (configuration this) = Some c \<and> enabled c = Some False)
      \<longrightarrow> exchange retry_fn this fetchParams e
            = retry_fn (fetchWithTimeout this (url fetchParams) (init fetchParams))
                (spread_retry (retry (configuration this))) e)
   \<and> (retry (configuration this) = None
      \<longrightarrow> exchange retry_fn this fetchParams e
            = retry_fn (fetchWithTimeout this (url fetchParams) (init fetchParams))
                \<lparr> enabled = None, maxRetries = None, retryWhen = None \<rparr> e)
   \<and> (\<forall>c err e'. retry (configuration this) = Some c \<and> enabled c = Some False
        \<and> this_middleware this = []
        \<and> this_fetchApi this u ([''signal'' \<mapsto> AbortSignal] ++ i) e = (Inl err, e')
      \<longrightarrow> fetch retry_fn this u i e
            = (let thrown = (if instanceof_AbortError err then TimeoutError else err)
               in if instanceof_Error thrown then Inl (FetchError thrown interceptors_message)
                  else Inl thrown,
               e'))"
proof -
  have a: "\<forall>c. retry (configuration this) = Some c \<and> enabled c = Some False
      \<longrightarrow> exchange retry_fn this fetchParams e
            = fetchWithTimeout this (url fetchParams) (init fetchParams) e
        \<and> snd (exchange retry_fn this fetchParams e)
            = snd (this_fetchApi this (url fetchParams)
                    ([''signal'' \<mapsto> AbortSignal] ++ init fetchParams) e)
        \<and> (\<forall>err. fst (this_fetchApi this (url fetchParams)
                    ([''signal'' \<mapsto> AbortSignal] ++ init fetchParams) e) = Inl err
             \<longrightarrow> fst (exchange retry_fn this fetchParams e)
                  = Inl (if instanceof_AbortError err then TimeoutError else err))"
    by (simp add: exchange_def retry_enabled_def fetchWithTimeout_once)
  have b: "\<not> (\<exists>c. retry (configuration this) = Some c \<and> enabled c = Some False)
      \<longrightarrow> exchange retry_fn this fetchParams e
            = retry_fn (fetchWithTimeout this (url fetchParams) (init fetchParams))
                (spread_retry (retry (configuration this))) e"
    by (auto simp: exchange_def retry_enabled_def split: option.splits)
  have c: "retry (configuration this) = None
      \<longrightarrow> exchange retry_fn this fetchParams e
            = retry_fn (fetchWithTimeout this (url fetchParams) (init fetchParams))
                \<lparr> enabled = None, maxRetries = None, retryWhen = None \<rparr> e"
    by (simp add: exchange_def retry_enabled_def spread_retry_def)
  have d: "\<forall>c err e'. retry (configuration this) = Some c \<and> enabled c = Some False
        \<and> this_middleware this = []
        \<and> this_fetchApi this u ([''signal'' \<mapsto> AbortSignal] ++ i) e = (Inl err, e')
      \<longrightarrow> fetch retry_fn this u i e
            = (let thrown = (if instanceof_AbortError err then TimeoutError else err)
               in if instanceof_Error thrown then Inl (FetchError thrown interceptors_message)
                  else Inl thrown,
               e')"
    by (simp add: fetch_without_middleware exchange_def retry_enabled_def
        fetchWithTimeout_def Let_def)
  show ?thesis
    by (rule conjI[OF a conjI[OF b conjI[OF c d]]])
qed

theorem retries_disabled_single_attempt_witness:
  "fetch retry_again (sample_api (rejecting (OtherError ''ECONNRESET'')) retries_off)
      ''https://tenant.example.com/api/v2/logs/5'' no_options fresh
     = (Inl (FetchError (OtherError ''ECONNRESET'') interceptors_message),
        \<lparr> calls = 1, parsed = [] \<rparr>)
   \<and> exchange retry_again (sample_api (rejecting (OtherError ''ECONNRESET'')) None)
      \<lparr> url = ''https://tenant.example.com/api/v2/logs/5'', init = no_options \<rparr> fresh
     = (Inl (OtherError ''ECONNRESET''), \<lparr> calls = 2, parsed = [] \<rparr>)"
proof -
  let ?off = "sample_api (rejecting (OtherError ''ECONNRESET'')) retries_off"
  let ?dflt = "sample_api (rejecting (OtherError ''ECONNRESET'')) None"
  let ?u = "''https://tenant.example.com/api/v2/logs/5''"
  note th = retries_disabled_single_attempt[where this = ?off and retry_fn = retry_again
      and fetchParams = "\<lparr> url = ?u, init = no_options \<rparr>"
      and u = ?u and i = no_options and e = fresh]
  have pre: "retry (configuration ?off)
        = Some \<lparr> enabled = Some False, maxRetries = None, retryWhen = None \<rparr>
      \<and> enabled \<lparr> enabled = Some False, maxRetries = None, retryWhen = None \<rparr> = Some False
      \<and> this_middleware ?off = []
      \<and> this_fetchApi ?off ?u ([''signal'' \<mapsto> AbortSignal] ++ no_options) fresh
          = (Inl (OtherError ''ECONNRESET''), \<lparr> calls = 1, parsed = [] \<rparr>)"
    by (simp add: runtime_sample_defs)
  note d = conjunct2[OF conjunct2[OF conjunct2[OF th]], rule_format, OF pre]
  have 1: "fetch retry_again ?off ?u no_options fresh
      = (let thrown = (if instanceof_AbortError (OtherError ''ECONNRESET'') then TimeoutError
                       else OtherError ''ECONNRESET'')
         in if instanceof_Error thrown then Inl (FetchError thrown interceptors_message)
            else Inl thrown,
         \<lparr> calls = 1, parsed = [] \<rparr>)"
    by (rule d)
  note th2 = retries_disabled_single_attempt[where this = ?dflt and retry_fn = retry_again
      and fetchParams = "\<lparr> url = ?u, init = no_options \<rparr>"
      and u = ?u and i = no_options and e = fresh]
  have none: "retry (configuration ?dflt) = None"
    by (simp add: sample_api_def)
  note c = conjunct1[OF conjunct2[OF conjunct2[OF th2]]]
  from mp[OF c none] have 2: "exchange retry_again ?dflt \<lparr> url = ?u, init = no_options \<rparr> fresh
      = (Inl (OtherError ''ECONNRESET''), \<lparr> calls = 2, parsed = [] \<rparr>)"
    by (simp add: fetchWithTimeout_def runtime_sample_defs)
  from 1 have one: "fetch retry_again ?off ?u no_options fresh
     = (Inl (FetchError (OtherError ''ECONNRESET'') interceptors_message),
        \<lparr> calls = 1, parsed = [] \<rparr>)"
    by simp
  show ?thesis
    by (rule conjI[OF one 2])
qed

subsection \<open>Failures of the exchange\<close>

text \<open>
  Against claim C1 as stated: with retries disabled, no middleware and a transport that
  rejects with an \<^verbatim>\<open>AbortError\<close> (the timeout fired), the exchange fails with the timeout
  error, no hook supplies a response, and the caller of \<^verbatim>\<open>fetch\<close> and of \<^verbatim>\<open>request\<close> receives
  the transport-failure wrapper around the timeout error, not the timeout error itself.
\<close>

theorem timeout_is_wrapped_counterexample:
  "exchange retry_again (sample_api (rejecting AbortError) retries_off)
      \<lparr> url = ''https://tenant.example.com/api/v2/logs/5'', init = no_options \<rparr> fresh
     = (Inl TimeoutError, \<lparr> calls = 1, parsed = [] \<rparr>)
   \<and> run_onError (sample_api (rejecting AbortError) retries_off)
      (this_middleware (sample_api (rejecting AbortError) retries_off))
      \<lparr> url = ''https://tenant.example.com/api/v2/logs/5'', init = no_options \<rparr>
      TimeoutError None \<lparr> calls = 1, parsed = [] \<rparr>
     = (Inr None, \<lparr> calls = 1, parsed = [] \<rparr>)
   \<and> fetch retry_again (sample_api (rejecting AbortError) retries_off)
      ''https://tenant.example.com/api/v2/logs/5'' no_options fresh
     = (Inl (FetchError TimeoutError interceptors_message), \<lparr> calls = 1, parsed = [] \<rparr>)
   \<and> fst (fetch retry_again (sample_api (rejecting AbortError) retries_off)
      ''https://tenant.example.com/api/v2/logs/5'' no_options fresh) \<noteq> Inl TimeoutError
   \<and> request retry_again (sample_api (rejecting AbortError) retries_off) sample_request
      NoOverride fresh
     = (Inl (FetchError TimeoutError interceptors_message), \<lparr> calls = 1, parsed = [] \<rparr>)"
  by (simp add: request_def createFetchParams_def fetch_def exchange_def retry_enabled_def
      fetchWithTimeout_def runtime_sample_defs Let_def)

text \<open>
  Claim C1, amended. When the exchange fails and no \<^verbatim>\<open>onError\<close> hook supplies a response
  (none throws either), \<^verbatim>\<open>fetch\<close> raises the transport-failure error wrapping the cause
  whenever the cause is an \<^verbatim>\<open>Error\<close>, and rethrows the cause itself when it is not. A timeout
  is no exception: the timeout guard replaces the transport's \<^verbatim>\<open>AbortError\<close> by a timeout
  error (every other rejection passes unchanged), and that timeout error reaches the
  caller as the cause inside the wrapper.
\<close>

theorem fetch_failure_is_wrapped:
  fixes retry_fn :: "'e retry_function"
  assumes prepared:
      "run_pre this (this_middleware this) \<lparr> url = u, init = i \<rparr> e = (Inr fetchParams, e1)"
    and failed: "exchange retry_fn this fetchParams e1 = (Inl err, e2)"
    and unrecovered:
      "run_onError this (this_middleware this) fetchParams err None e2 = (Inr None, e3)"
  shows "fetch retry_fn this u i e
           = (if instanceof_Error err then Inl (FetchError err interceptors_message) else Inl err,
              e3)
       \<and> (err = TimeoutError
            \<longrightarrow> fetch retry_fn this u i e
                = (Inl (FetchError TimeoutError interceptors_message), e3))
       \<and> (\<forall>u' i' ea eb cause.
             this_fetchApi this u' ([''signal'' \<mapsto> AbortSignal] ++ i') ea = (Inl cause, eb)
             \<longrightarrow> fetchWithTimeout this u' i' ea
                 = (Inl (if cause = AbortError then TimeoutError else cause), eb))"
proof -
  have f: "fetch retry_fn this u i e
           = (if instanceof_Error err then Inl (FetchError err interceptors_message) else Inl err,
              e3)"
    using prepared failed unrecovered by (simp add: fetch_def)
  have t: "\<forall>u' i' ea eb cause.
             this_fetchApi this u' ([''signal'' \<mapsto> AbortSignal] ++ i') ea = (Inl cause, eb)
             \<longrightarrow> fetchWithTimeout this u' i' ea
                 = (Inl (if cause = AbortError then TimeoutError else cause), eb)"
  proof (intro allI impI)
    fix u' i' ea eb cause
    assume "this_fetchApi this u' ([''signal'' \<mapsto> AbortSignal] ++ i') ea = (Inl cause, eb)"
    then show "fetchWithTimeout this u' i' ea
        = (Inl (if cause = AbortError then TimeoutError else cause), eb)"
      by (cases cause) (simp_all add: fetchWithTimeout_def)
  qed
  show ?thesis
    using f t by simp
qed

theorem fetch_failure_is_wrapped_witness:
  "fetch retry_again (sample_api (rejecting AbortError) None)
      ''https://tenant.example.com/api/v2/logs/5'' no_options fresh
     = (Inl (FetchError TimeoutError interceptors_message), \<lparr> calls = 2, parsed = [] \<rparr>)
   \<and> fetch retry_again (sample_api (rejecting (NonError (JStr ''boom''))) None)
      ''https://tenant.example.com/api/v2/logs/5'' no_options fresh
     = (Inl (NonError (JStr ''boom'')), \<lparr> calls = 2, parsed = [] \<rparr>)"
proof -
  let ?u = "''https://tenant.example.com/api/v2/logs/5''"
  let ?fp = "\<lparr> url = ?u, init = no_options \<rparr>"
  have p: "run_pre (sample_api t None) (this_middleware (sample_api t None)) ?fp fresh
      = (Inr ?fp, fresh)" for t
    by (simp add: sample_api_def)
  have x: "exchange retry_again (sample_api (rejecting c) None) ?fp fresh
      = (Inl (if c = AbortError then TimeoutError else c), \<lparr> calls = 2, parsed = [] \<rparr>)" for c
    by (cases c) (simp_all add: exchange_def retry_enabled_def fetchWithTimeout_def
        spread_retry_def runtime_sample_defs)
  have o: "run_onError (sample_api t None) (this_middleware (sample_api t None)) ?fp c None
      \<lparr> calls = 2, parsed = [] \<rparr> = (Inr None, \<lparr> calls = 2, parsed = [] \<rparr>)" for t c
    by (simp add: sample_api_def)
  have 1: "fetch retry_again (sample_api (rejecting AbortError) None) ?u no_options fresh
     = (Inl (FetchError TimeoutError interceptors_message), \<lparr> calls = 2, parsed = [] \<rparr>)"
    using fetch_failure_is_wrapped[OF p x[of AbortError] o] by simp
  have 2: "fetch retry_again (sample_api (rejecting (NonError (JStr ''boom''))) None) ?u
      no_options fresh = (Inl (NonError (JStr ''boom'')), \<lparr> calls = 2, parsed = [] \<rparr>)"
    using fetch_failure_is_wrapped[OF p x[of "NonError (JStr ''boom'')"] o] by simp
  show ?thesis
    by (rule conjI[OF 1 2])
qed
end
